theory Spec2Isabelle
  imports Main "HOL-Library.Char_ord" "HOL-Library.List_Lexorder"
begin

section \<open>Python values used by the Pebblo retrieval chain\<close>

text \<open>
  Exceptions are values.  Every constructor but the last stands for a class below
  Python's \<open>Exception\<close>; \<open>RequestException\<close> covers the whole hierarchy of
  \<open>requests.exceptions.RequestException\<close>.  \<open>ValidationError\<close> is the exception
  that the constructor of a pydantic model raises: it holds, for every field whose
  validation failed, the name of the field and the exception that a validator of that
  field raised.  \<open>NonExceptionBase\<close> stands for the classes that derive from
  \<open>BaseException\<close> only (\<open>KeyboardInterrupt\<close>, \<open>SystemExit\<close>), which an
  \<open>except Exception\<close> clause does not catch.
\<close>

datatype exn =
    ValueError string
  | KeyError string
  | AttributeError string
  | ValidationError "(string \<times> exn) list"
  | RequestException string
  | OtherException string
  | NonExceptionBase string

fun is_RequestException :: "exn \<Rightarrow> bool" where
  "is_RequestException (RequestException m) = True"
| "is_RequestException e = False"

fun is_Exception :: "exn \<Rightarrow> bool" where
  "is_Exception (NonExceptionBase m) = False"
| "is_Exception e = True"

text \<open>A class object: what \<open>repr\<close> and \<open>__name__\<close> read.\<close>

record pyclass =
  cls_module :: string
  cls_name :: string

text \<open>
  An embeddings object; \<open>emb_model\<close> is its attribute \<open>model\<close>, already
  rendered by \<open>str\<close>, or \<open>None\<close> when the object has no such attribute.
\<close>

record embeddings =
  emb_model :: "string option"

text \<open>
  A vector store object: its class, the other classes of its method resolution order,
  and the two optional attributes \<open>_embeddings\<close> and \<open>_embedding\<close> that
  \<open>get_chain_details\<close> probes with \<open>hasattr\<close>.
\<close>

record vector_store =
  vs_class :: pyclass
  vs_bases :: "pyclass list"
  vs_embeddings :: "embeddings option"
  vs_embedding :: "embeddings option"

text \<open>
  A \<open>VectorStoreRetriever\<close>: the store it searches and its mutable
  \<open>search_kwargs\<close> dictionary.  The type \<open>'f\<close> of the dictionary's values is
  left open: the enforcement filters that are written there are built by a module that
  is not part of this file's source.
\<close>

record 'f vs_retriever =
  vectorstore :: vector_store
  search_kwargs :: "(string \<times> 'f) list"

definition isinstance :: "vector_store \<Rightarrow> pyclass \<Rightarrow> bool" where
  "isinstance v c \<longleftrightarrow> c \<in> set (vs_class v # vs_bases v)"

definition type_name :: "vector_store \<Rightarrow> string" where
  "type_name v = cls_name (vs_class v)"

definition repr_class :: "pyclass \<Rightarrow> string" where
  "repr_class c = ''<class '' @ [CHR 0x27] @ cls_module c @ ''.'' @ cls_name c @ [CHR 0x27] @ ''>''"

fun join :: "string \<Rightarrow> string list \<Rightarrow> string" where
  "join sep [] = []"
| "join sep [x] = x"
| "join sep (x # y # ys) = x @ sep @ join sep (y # ys)"

definition repr_class_list :: "pyclass list \<Rightarrow> string" where
  "repr_class_list cs = ''['' @ join '', '' (map repr_class cs) @ '']''"

section \<open>Validation of the retriever\<close>

text \<open>
  \<open>validate_vectorstore\<close> (a pydantic validator of the field \<open>retriever\<close>).  The
  list \<open>SUPPORTED_VECTORSTORES\<close> is imported from the enforcement-filter module and is
  a parameter here.
\<close>

definition unsupported_message :: "pyclass list \<Rightarrow> vector_store \<Rightarrow> string" where
  "unsupported_message SUPPORTED v =
     ''Vectorstore must be an instance of one of the supported vectorstores: ''
       @ repr_class_list SUPPORTED @ ''. Got '' @ type_name v @ '' instead.''"

definition validate_vectorstore ::
  "pyclass list \<Rightarrow> 'f vs_retriever \<Rightarrow> exn + 'f vs_retriever" where
  "validate_vectorstore SUPPORTED retr =
     (if \<not> list_ex (isinstance (vectorstore retr)) SUPPORTED
      then Inl (ValueError (unsupported_message SUPPORTED (vectorstore retr)))
      else Inr retr)"

section \<open>Requests, contexts and documents\<close>

text \<open>
  \<open>AuthContext\<close> and \<open>SemanticContext\<close> are pydantic models of the module
  \<open>models\<close>; their fields are the ones the chain and the specification name.
\<close>

record AuthContext =
  user_id :: string
  user_auth :: "string list"

record SemanticContext =
  allowed_topics :: "string list"
  denied_topics :: "string list"
  allowed_entities :: "string list"
  denied_entities :: "string list"

text \<open>
  The values that the dictionary \<open>inputs\<close> of a chain call can hold.  \<open>PyDict []\<close>
  is the empty dictionary \<open>{}\<close>.
\<close>

datatype pyval =
    PyNone
  | PyStr string
  | PyDict "(string \<times> pyval) list"
  | PyAuth AuthContext
  | PySem SemanticContext

text \<open>
  Python truthiness.  A pydantic model defines neither \<open>__bool__\<close> nor
  \<open>__len__\<close>, so a context object is always true.
\<close>

fun truthy :: "pyval \<Rightarrow> bool" where
  "truthy PyNone = False"
| "truthy (PyStr s) = (s \<noteq> [])"
| "truthy (PyDict d) = (d \<noteq> [])"
| "truthy (PyAuth a) = True"
| "truthy (PySem s) = True"

text \<open>\<open>v.user_id\<close>, \<open>v.user_auth\<close> and \<open>hasattr(v, "user_auth")\<close>.\<close>

fun getattr_user_id :: "pyval \<Rightarrow> exn + string" where
  "getattr_user_id (PyAuth a) = Inr (user_id a)"
| "getattr_user_id v = Inl (AttributeError ''user_id'')"

fun getattr_user_auth :: "pyval \<Rightarrow> exn + string list" where
  "getattr_user_auth (PyAuth a) = Inr (user_auth a)"
| "getattr_user_auth v = Inl (AttributeError ''user_auth'')"

fun hasattr_user_auth :: "pyval \<Rightarrow> bool" where
  "hasattr_user_auth (PyAuth a) = True"
| "hasattr_user_auth v = False"

text \<open>\<open>d[k]\<close> and \<open>d.get(k, default)\<close> on the dictionary \<open>inputs\<close>.\<close>

definition getitem :: "(string \<times> pyval) list \<Rightarrow> string \<Rightarrow> exn + pyval" where
  "getitem d k = (case map_of d k of None \<Rightarrow> Inl (KeyError k) | Some v \<Rightarrow> Inr v)"

definition dict_get :: "(string \<times> pyval) list \<Rightarrow> string \<Rightarrow> pyval \<Rightarrow> pyval" where
  "dict_get d k dflt = (case map_of d k of None \<Rightarrow> dflt | Some v \<Rightarrow> v)"

text \<open>
  What a retriever returns: \<open>Document\<close> objects (page content and metadata), and
  possibly objects of another class, which \<open>_call\<close> filters out with
  \<open>isinstance(doc, Document)\<close>.
\<close>

datatype retrieved =
    Document string "(string \<times> string) list"
  | NonDocument

text \<open>Callback managers: only their identity and \<open>get_child\<close> matter here.\<close>

datatype run_manager = NoopManager | Manager nat

datatype callbacks = Child run_manager

definition get_child :: "run_manager \<Rightarrow> callbacks" where
  "get_child m = Child m"

definition or_noop :: "run_manager option \<Rightarrow> run_manager" where
  "or_noop m = (case m of None \<Rightarrow> NoopManager | Some r \<Rightarrow> r)"

section \<open>Telemetry payloads\<close>

text \<open>One entry of the \<open>context\<close> list of the prompt payload.\<close>

record context_entry =
  retrieved_from :: "string option"
  doc :: string
  vector_db :: string

text \<open>The keyword arguments with which \<open>_call\<close> builds the \<open>Qa\<close> model.\<close>

record Qa =
  qa_name :: string
  qa_context :: "context_entry list"
  qa_prompt :: pyval
  qa_response :: string
  qa_prompt_time :: string
  qa_user :: string
  qa_user_identities :: "string list"

text \<open>The language model object as \<open>get_chain_details\<close> reads it.\<close>

record llm =
  llm_class_name :: string
  llm_dict :: "(string \<times> string option) list"

record vector_db_detail =
  vdb_name :: string
  vdb_embedding_model :: "string option"

record chain_detail =
  cd_name :: string
  cd_model_name :: "string option"
  cd_vendor :: string
  cd_vector_dbs :: "vector_db_detail list"

text \<open>The keyword arguments with which \<open>_get_app_details\<close> builds the \<open>App\<close> model.\<close>

record App =
  app_name_of :: string
  app_owner :: string
  app_description :: string
  app_runtime :: string
  app_framework :: string
  app_chains :: "chain_detail list"
  app_plugin_version :: string

datatype payload = DiscoverPayload App | PromptPayload Qa

text \<open>
  A response of \<open>requests.post\<close>: the status code and what \<open>json()\<close> does on it
  (it raises on a body that is not JSON).
\<close>

record response =
  status_code :: nat
  json :: "exn + string"

definition HTTP_OK :: nat where "HTTP_OK = 200"
definition HTTP_BAD_GATEWAY :: nat where "HTTP_BAD_GATEWAY = 502"

section \<open>The world: shared objects, class attributes and the trace of effects\<close>

type_synonym ref = nat

text \<open>
  Everything observable that the chain does is appended to a trace: the call of the
  enforcement-filter module, searches (with the state of the retriever at that moment),
  the call of the combine-documents chain, HTTP posts and log records (format string
  only).
\<close>

datatype 'f event =
    EnforcementFilters ref pyval pyval
  | SimilaritySearch ref "'f vs_retriever" pyval callbacks
  | CombineDocuments nat "retrieved list" pyval callbacks
  | HttpPost string "(string \<times> string) list" payload
  | LogDebug string
  | LogWarning string

text \<open>
  Retrievers are shared mutable objects, so they live in a heap and a chain holds a
  reference.  \<open>cls_discover_sent\<close> and \<open>cls_prompt_sent\<close> are the attributes
  \<open>_discover_sent\<close> and \<open>_prompt_sent\<close> of the class object
  \<open>PebbloRetrievalQA\<close>.
\<close>

record 'f world =
  heap :: "ref \<Rightarrow> 'f vs_retriever"
  cls_discover_sent :: bool
  cls_prompt_sent :: bool
  trace :: "'f event list"

definition emit :: "'f event \<Rightarrow> 'f world \<Rightarrow> 'f world" where
  "emit ev w = w\<lparr>trace := trace w @ [ev]\<rparr>"

text \<open>
  What the chain imports or calls and this file's source does not define.  The
  functions that reach outside the process take the trace so far, so that their
  answers may depend on everything that happened before.
\<close>

record 'f env =
  SUPPORTED_VECTORSTORES :: "pyclass list"
  set_enforcement_filters ::
    "'f vs_retriever \<Rightarrow> pyval \<Rightarrow> pyval \<Rightarrow> (exn + unit) \<times> 'f vs_retriever"
  get_relevant_documents :: "'f vs_retriever \<Rightarrow> pyval \<Rightarrow> callbacks \<Rightarrow> exn + retrieved list"
  aget_relevant_documents :: "'f vs_retriever \<Rightarrow> pyval \<Rightarrow> callbacks \<Rightarrow> exn + retrieved list"
  combine_run :: "nat \<Rightarrow> retrieved list \<Rightarrow> pyval \<Rightarrow> callbacks \<Rightarrow> exn + string"
  combine_arun :: "nat \<Rightarrow> retrieved list \<Rightarrow> pyval \<Rightarrow> callbacks \<Rightarrow> exn + string"
  load_qa_chain :: "llm \<Rightarrow> string \<Rightarrow> (string \<times> string) list \<Rightarrow> exn + nat"
  requests_post ::
    "'f event list \<Rightarrow> string \<Rightarrow> (string \<times> string) list \<Rightarrow> payload \<Rightarrow> exn + response"
  datetime_now_isoformat :: "'f event list \<Rightarrow> string"
  Qa_validation :: "Qa \<Rightarrow> exn option"
  get_runtime :: "string \<times> string"
  APP_DISCOVER_URL :: string
  PROMPT_URL :: string
  PEBBLO_CLOUD_URL :: string
  PLUGIN_VERSION :: string

section \<open>The chain object\<close>

record chain =
  combine_documents_chain :: nat
  input_key :: string
  output_key :: string
  return_source_documents :: bool
  retriever :: ref
  auth_context_key :: string
  semantic_context_key :: string
  app_name :: string
  owner :: string
  description :: string
  api_key :: "string option"
  classifier_url :: string

text \<open>
  Reading \<open>self._discover_sent\<close> or \<open>self._prompt_sent\<close>: the names start with
  an underscore, so pydantic keeps them out of the fields of the model and no instance
  has an attribute of its own; the lookup ends at the class.
\<close>

definition get_discover_sent :: "chain \<Rightarrow> 'f world \<Rightarrow> bool" where
  "get_discover_sent self w = cls_discover_sent w"

definition get_prompt_sent :: "chain \<Rightarrow> 'f world \<Rightarrow> bool" where
  "get_prompt_sent self w = cls_prompt_sent w"

definition set_discover_sent :: "'f world \<Rightarrow> 'f world" where
  "set_discover_sent w = w\<lparr>cls_discover_sent := True\<rparr>"

definition set_prompt_sent :: "'f world \<Rightarrow> 'f world" where
  "set_prompt_sent w = w\<lparr>cls_prompt_sent := True\<rparr>"

text \<open>
  The constructor \<open>cls(...)\<close>, given the values of all fields (defaults filled
  in): pydantic runs \<open>validate_vectorstore\<close> on the retriever, collects the
  \<open>ValueError\<close> that the validator raises and raises a \<open>ValidationError\<close> that
  holds it under the name of the field.
\<close>

definition PebbloRetrievalQA ::
  "'f env \<Rightarrow> chain \<Rightarrow> 'f world \<Rightarrow> (exn + chain) \<times> 'f world" where
  "PebbloRetrievalQA env vals w =
     (case validate_vectorstore (SUPPORTED_VECTORSTORES env) (heap w (retriever vals)) of
        Inl e \<Rightarrow> (Inl (ValidationError [(''retriever'', e)]), w)
      | Inr r \<Rightarrow> (Inr vals, w))"

section \<open>Retrieval\<close>

text \<open>
  \<open>_get_docs\<close>: the enforcement filters are set on the retriever object, then the
  search runs on the object as it is after that call.  \<open>set_enforcement_filters\<close>
  may mutate the retriever and may raise; what it raises is not caught.
\<close>

definition get_docs ::
  "'f env \<Rightarrow> chain \<Rightarrow> pyval \<Rightarrow> pyval \<Rightarrow> pyval \<Rightarrow> run_manager \<Rightarrow> 'f world
     \<Rightarrow> (exn + retrieved list) \<times> 'f world" where
  "get_docs env self question auth_context semantic_context rm w =
     (case set_enforcement_filters env (heap w (retriever self)) auth_context semantic_context of
        (res, r') \<Rightarrow>
          (let w1 = emit (EnforcementFilters (retriever self) auth_context semantic_context)
                      (w\<lparr>heap := (heap w)(retriever self := r')\<rparr>)
           in case res of
                Inl e \<Rightarrow> (Inl e, w1)
              | Inr u \<Rightarrow>
                  (get_relevant_documents env r' question (get_child rm),
                   emit (SimilaritySearch (retriever self) r' question (get_child rm)) w1)))"

text \<open>
  \<open>_aget_docs\<close>: the same steps with the asynchronous search.  The coroutine is
  modelled as the sequence of its steps; interleaving with other tasks is outside the
  model.
\<close>

definition aget_docs ::
  "'f env \<Rightarrow> chain \<Rightarrow> pyval \<Rightarrow> pyval \<Rightarrow> pyval \<Rightarrow> run_manager \<Rightarrow> 'f world
     \<Rightarrow> (exn + retrieved list) \<times> 'f world" where
  "aget_docs env self question auth_context semantic_context rm w =
     (case set_enforcement_filters env (heap w (retriever self)) auth_context semantic_context of
        (res, r') \<Rightarrow>
          (let w1 = emit (EnforcementFilters (retriever self) auth_context semantic_context)
                      (w\<lparr>heap := (heap w)(retriever self := r')\<rparr>)
           in case res of
                Inl e \<Rightarrow> (Inl e, w1)
              | Inr u \<Rightarrow>
                  (aget_relevant_documents env r' question (get_child rm),
                   emit (SimilaritySearch (retriever self) r' question (get_child rm)) w1)))"

section \<open>Telemetry\<close>

definition json_headers :: "(string \<times> string) list" where
  "json_headers = [(''Accept'', ''application/json''), (''Content-Type'', ''application/json'')]"

text \<open>
  The two \<open>except\<close> clauses that close every \<open>try\<close> block of the telemetry
  functions: \<open>except requests.exceptions.RequestException\<close> logs the first message,
  \<open>except Exception\<close> logs the second, and anything else goes on to the caller.
\<close>

definition try_except ::
  "string \<Rightarrow> string \<Rightarrow> (exn + unit) \<times> 'f world \<Rightarrow> (exn + unit) \<times> 'f world" where
  "try_except msg_request msg_other body =
     (case body of
        (Inr u, w) \<Rightarrow> (Inr u, w)
      | (Inl e, w) \<Rightarrow>
          if is_RequestException e then (Inr (), emit (LogWarning msg_request) w)
          else if is_Exception e then (Inr (), emit (LogWarning msg_other) w)
          else (Inl e, w))"

text \<open>
  The body of a first \<open>try\<close> block: post to the local classifier, log (the arguments
  of \<open>logger.debug\<close> are evaluated before the call, \<open>json()\<close> among them), then set
  the class flag on status 200 or 502.
\<close>

definition post_local ::
  "'f env \<Rightarrow> string \<Rightarrow> payload \<Rightarrow> string \<Rightarrow> string \<Rightarrow> ('f world \<Rightarrow> 'f world) \<Rightarrow> 'f world
     \<Rightarrow> (exn + unit) \<times> 'f world" where
  "post_local env url pl msg_payload msg_request set_sent w =
     (let w1 = emit (HttpPost url json_headers pl) w in
      case requests_post env (trace w) url json_headers pl of
        Inl e \<Rightarrow> (Inl e, w1)
      | Inr resp \<Rightarrow>
          (let w2 = emit (LogDebug msg_payload) w1 in
           case json resp of
             Inl e \<Rightarrow> (Inl e, w2)
           | Inr body \<Rightarrow>
               (let w3 = emit (LogDebug msg_request) w2 in
                if status_code resp \<in> set [HTTP_OK, HTTP_BAD_GATEWAY]
                then (Inr (), set_sent w3)
                else (Inr (), emit (LogWarning ''Received unexpected HTTP response code: '') w3))))"

text \<open>
  The body of a second \<open>try\<close> block: the API key is added to the headers, the
  payload is posted to the Pebblo cloud and the exchange is logged.
\<close>

definition post_cloud ::
  "'f env \<Rightarrow> string \<Rightarrow> string \<Rightarrow> payload \<Rightarrow> string \<Rightarrow> 'f world \<Rightarrow> (exn + unit) \<times> 'f world" where
  "post_cloud env key url pl msg_request w =
     (let headers = json_headers @ [(''x-api-key'', key)];
          w1 = emit (HttpPost url headers pl) w
      in case requests_post env (trace w) url headers pl of
           Inl e \<Rightarrow> (Inl e, w1)
         | Inr resp \<Rightarrow>
             (case json resp of
                Inl e \<Rightarrow> (Inl e, w1)
              | Inr body \<Rightarrow> (Inr (), emit (LogDebug msg_request) w1)))"

text \<open>
  The format strings of the four \<open>logger.debug\<close> calls that log an exchange (each is
  written over two source lines joined by a backslash, which keeps the indentation of the
  second line inside the string).
\<close>

definition send_discover_local_fmt :: string where
  "send_discover_local_fmt =
     ''send_discover[local]: request url %s, body %s len %s''
       @ replicate 20 (CHR '' '') @ ''response status %s body %s''"

definition send_discover_cloud_fmt :: string where
  "send_discover_cloud_fmt =
     ''send_discover[cloud]: request url %s, body %s len %s''
       @ replicate 24 (CHR '' '') @ ''response status %s body %s''"

definition send_prompt_local_fmt :: string where
  "send_prompt_local_fmt =
     ''send_prompt[local]: request url %s, body %s len %s''
       @ replicate 20 (CHR '' '') @ ''response status %s body %s''"

definition send_prompt_cloud_fmt :: string where
  "send_prompt_cloud_fmt =
     ''send_prompt[cloud]: request url %s, body %s len %s''
       @ replicate 24 (CHR '' '') @ ''response status %s body %s''"

text \<open>\<open>if api_key:\<close> on an \<open>Optional[str]\<close>.\<close>

fun key_given :: "string option \<Rightarrow> string option" where
  "key_given None = None"
| "key_given (Some k) = (if k = [] then None else Some k)"

definition send_discover ::
  "'f env \<Rightarrow> App \<Rightarrow> string option \<Rightarrow> string \<Rightarrow> 'f world \<Rightarrow> (exn + unit) \<times> 'f world" where
  "send_discover env app key url w =
     (case try_except ''Unable to reach pebblo server.''
             ''An Exception caught in _send_discover: local %s''
             (post_local env (url @ APP_DISCOVER_URL env) (DiscoverPayload app)
                ''discover-payload: %s'' send_discover_local_fmt set_discover_sent w) of
        (Inl e, w1) \<Rightarrow> (Inl e, w1)
      | (Inr u, w1) \<Rightarrow>
          (case key_given key of
             None \<Rightarrow> (Inr (), w1)
           | Some k \<Rightarrow>
               try_except ''Unable to reach Pebblo cloud server.''
                 ''An Exception caught in _send_discover: cloud %s''
                 (post_cloud env k (PEBBLO_CLOUD_URL env @ APP_DISCOVER_URL env)
                    (DiscoverPayload app) send_discover_cloud_fmt w1)))"

definition send_prompt ::
  "'f env \<Rightarrow> chain \<Rightarrow> Qa \<Rightarrow> 'f world \<Rightarrow> (exn + unit) \<times> 'f world" where
  "send_prompt env self qa_payload w =
     (case try_except ''Unable to reach pebblo server.''
             ''An Exception caught in _send_discover: local %s''
             (post_local env (classifier_url self @ PROMPT_URL env) (PromptPayload qa_payload)
                ''prompt-payload: %s'' send_prompt_local_fmt set_prompt_sent w) of
        (Inl e, w1) \<Rightarrow> (Inl e, w1)
      | (Inr u, w1) \<Rightarrow>
          (case key_given (api_key self) of
             None \<Rightarrow> (Inr (), w1)
           | Some k \<Rightarrow>
               try_except ''Unable to reach Pebblo cloud server.''
                 ''An Exception caught in _send_prompt: cloud %s''
                 (post_cloud env k (PEBBLO_CLOUD_URL env @ PROMPT_URL env)
                    (PromptPayload qa_payload) send_prompt_cloud_fmt w1)))"

section \<open>Answering a question\<close>

fun context_entries :: "string \<Rightarrow> retrieved list \<Rightarrow> context_entry list" where
  "context_entries vdb [] = []"
| "context_entries vdb (Document content md # ds) =
     \<lparr>retrieved_from = map_of md ''source'', doc = content, vector_db = vdb\<rparr>
       # context_entries vdb ds"
| "context_entries vdb (NonDocument # ds) = context_entries vdb ds"

text \<open>\<open>auth_context.user_id if auth_context else "unknown"\<close>\<close>

definition user_of :: "pyval \<Rightarrow> exn + string" where
  "user_of auth_context =
     (if truthy auth_context then getattr_user_id auth_context else Inr ''unknown'')"

text \<open>
  \<open>auth_context.user_auth if auth_context and hasattr(auth_context, "user_auth") else []\<close>
\<close>

definition user_identities_of :: "pyval \<Rightarrow> exn + string list" where
  "user_identities_of auth_context =
     (if truthy auth_context \<and> hasattr_user_auth auth_context
      then getattr_user_auth auth_context else Inr [])"

text \<open>The dictionary \<open>qa\<close> of \<open>_call\<close>, its entries evaluated in order.\<close>

definition build_qa ::
  "chain \<Rightarrow> 'f world \<Rightarrow> retrieved list \<Rightarrow> pyval \<Rightarrow> string \<Rightarrow> string \<Rightarrow> pyval \<Rightarrow> exn + Qa" where
  "build_qa self w docs question answer prompt_time auth_context =
     (let ctx = context_entries (type_name (vectorstore (heap w (retriever self)))) docs
      in case user_of auth_context of
           Inl e \<Rightarrow> Inl e
         | Inr u \<Rightarrow>
             (case user_identities_of auth_context of
                Inl e \<Rightarrow> Inl e
              | Inr ids \<Rightarrow>
                  Inr \<lparr>qa_name = app_name self, qa_context = ctx, qa_prompt = question,
                       qa_response = answer, qa_prompt_time = prompt_time, qa_user = u,
                       qa_user_identities = ids\<rparr>))"

datatype outval = Answer string | SourceDocuments "retrieved list"

text \<open>The dictionary that \<open>_call\<close> and \<open>_acall\<close> return.\<close>

definition result_dict :: "chain \<Rightarrow> string \<Rightarrow> retrieved list \<Rightarrow> (string \<rightharpoonup> outval)" where
  "result_dict self answer docs =
     (if return_source_documents self
      then [output_key self \<mapsto> Answer answer, ''source_documents'' \<mapsto> SourceDocuments docs]
      else [output_key self \<mapsto> Answer answer])"

text \<open>
  \<open>_call\<close>.  The test \<open>"run_manager" in inspect.signature(self._get_docs).parameters\<close>
  is true for \<open>_get_docs\<close> as this class defines it, so the first branch is the one
  taken.  \<open>Qa(**qa)\<close> is pydantic validation of a model this file's source does not
  define: \<open>Qa_validation\<close> says what it raises, if anything.
\<close>

definition call ::
  "'f env \<Rightarrow> chain \<Rightarrow> (string \<times> pyval) list \<Rightarrow> run_manager option \<Rightarrow> 'f world
     \<Rightarrow> (exn + (string \<rightharpoonup> outval)) \<times> 'f world" where
  "call env self inputs run_manager w =
     (let prompt_time = datetime_now_isoformat env (trace w);
          rm = or_noop run_manager
      in case getitem inputs (input_key self) of
           Inl e \<Rightarrow> (Inl e, w)
         | Inr question \<Rightarrow>
             (let auth_context = dict_get inputs (auth_context_key self) (PyDict []);
                  semantic_context = dict_get inputs (semantic_context_key self) (PyDict [])
              in case get_docs env self question auth_context semantic_context rm w of
                   (Inl e, w1) \<Rightarrow> (Inl e, w1)
                 | (Inr docs, w1) \<Rightarrow>
                     (let w2 = emit (CombineDocuments (combine_documents_chain self) docs
                                       question (get_child rm)) w1
                      in case combine_run env (combine_documents_chain self) docs question
                                (get_child rm) of
                           Inl e \<Rightarrow> (Inl e, w2)
                         | Inr answer \<Rightarrow>
                             (case build_qa self w2 docs question answer prompt_time
                                     auth_context of
                                Inl e \<Rightarrow> (Inl e, w2)
                              | Inr qa \<Rightarrow>
                                  (case Qa_validation env qa of
                                     Some e \<Rightarrow> (Inl e, w2)
                                   | None \<Rightarrow>
                                       (case send_prompt env self qa w2 of
                                          (Inl e, w3) \<Rightarrow> (Inl e, w3)
                                        | (Inr u, w3) \<Rightarrow>
                                            (Inr (result_dict self answer docs), w3)))))))"

text \<open>\<open>_acall\<close>: the contexts default to \<open>None\<close>, and nothing follows the answer.\<close>

definition acall ::
  "'f env \<Rightarrow> chain \<Rightarrow> (string \<times> pyval) list \<Rightarrow> run_manager option \<Rightarrow> 'f world
     \<Rightarrow> (exn + (string \<rightharpoonup> outval)) \<times> 'f world" where
  "acall env self inputs run_manager w =
     (let rm = or_noop run_manager
      in case getitem inputs (input_key self) of
           Inl e \<Rightarrow> (Inl e, w)
         | Inr question \<Rightarrow>
             (let auth_context = dict_get inputs (auth_context_key self) PyNone;
                  semantic_context = dict_get inputs (semantic_context_key self) PyNone
              in case aget_docs env self question auth_context semantic_context rm w of
                   (Inl e, w1) \<Rightarrow> (Inl e, w1)
                 | (Inr docs, w1) \<Rightarrow>
                     (let w2 = emit (CombineDocuments (combine_documents_chain self) docs
                                       question (get_child rm)) w1
                      in case combine_arun env (combine_documents_chain self) docs question
                                (get_child rm) of
                           Inl e \<Rightarrow> (Inl e, w2)
                         | Inr answer \<Rightarrow> (Inr (result_dict self answer docs), w2))))"

definition input_keys :: "chain \<Rightarrow> string list" where
  "input_keys self = [input_key self, auth_context_key self, semantic_context_key self]"

definition output_keys :: "chain \<Rightarrow> string list" where
  "output_keys self =
     [output_key self] @ (if return_source_documents self then [''source_documents''] else [])"

section \<open>Building a chain from a chain type\<close>

text \<open>
  The keyword arguments \<open>**kwargs\<close> of \<open>from_chain_type\<close>: the retriever and the
  fields of the chain that have a default.
\<close>

record chain_kwargs =
  kw_retriever :: "ref option"
  kw_return_source_documents :: "bool option"
  kw_input_key :: "string option"
  kw_output_key :: "string option"
  kw_auth_context_key :: "string option"
  kw_semantic_context_key :: "string option"

definition or_default :: "'a option \<Rightarrow> 'a \<Rightarrow> 'a" where
  "or_default v d = (case v of None \<Rightarrow> d | Some x \<Rightarrow> x)"

text \<open>\<open>llm_dict.get("model_name", llm_dict.get("model"))\<close>\<close>

definition llm_model_name :: "llm \<Rightarrow> string option" where
  "llm_model_name l =
     (case map_of (llm_dict l) ''model_name'' of
        Some v \<Rightarrow> v
      | None \<Rightarrow> (case map_of (llm_dict l) ''model'' of Some v \<Rightarrow> v | None \<Rightarrow> None))"

definition embedding_model :: "vector_store \<Rightarrow> exn + string option" where
  "embedding_model vs =
     (case vs_embeddings vs of
        Some e \<Rightarrow>
          (case emb_model e of None \<Rightarrow> Inl (AttributeError ''model'') | Some m \<Rightarrow> Inr (Some m))
      | None \<Rightarrow>
          (case vs_embedding vs of
             Some e \<Rightarrow>
               (case emb_model e of
                  None \<Rightarrow> Inl (AttributeError ''model'')
                | Some m \<Rightarrow> Inr (Some m))
           | None \<Rightarrow> Inr None))"

definition get_chain_details ::
  "llm \<Rightarrow> chain_kwargs \<Rightarrow> 'f world \<Rightarrow> exn + chain_detail list" where
  "get_chain_details l kwargs w =
     (case kw_retriever kwargs of
        None \<Rightarrow> Inl (KeyError ''retriever'')
      | Some r \<Rightarrow>
          (case embedding_model (vectorstore (heap w r)) of
             Inl e \<Rightarrow> Inl e
           | Inr em \<Rightarrow>
               Inr [\<lparr>cd_name = ''PebbloRetrievalQA'', cd_model_name = llm_model_name l,
                     cd_vendor = llm_class_name l,
                     cd_vector_dbs =
                       [\<lparr>vdb_name = type_name (vectorstore (heap w r)),
                         vdb_embedding_model = em\<rparr>]\<rparr>]))"

definition get_app_details ::
  "'f env \<Rightarrow> string \<Rightarrow> string \<Rightarrow> string \<Rightarrow> llm \<Rightarrow> chain_kwargs \<Rightarrow> 'f world \<Rightarrow> exn + App" where
  "get_app_details env name own descr l kwargs w =
     (case get_runtime env of
        (framework, runtime) \<Rightarrow>
          (case get_chain_details l kwargs w of
             Inl e \<Rightarrow> Inl e
           | Inr cds \<Rightarrow>
               Inr \<lparr>app_name_of = name, app_owner = own, app_description = descr,
                    app_runtime = runtime, app_framework = framework, app_chains = cds,
                    app_plugin_version = PLUGIN_VERSION env\<rparr>))"

text \<open>
  \<open>from_chain_type\<close>: load the combine-documents chain, describe the application,
  send the discovery payload, then construct the chain, which validates the retriever.
\<close>

definition from_chain_type ::
  "'f env \<Rightarrow> llm \<Rightarrow> string \<Rightarrow> string \<Rightarrow> string \<Rightarrow> string \<Rightarrow> (string \<times> string) list option
     \<Rightarrow> string option \<Rightarrow> string \<Rightarrow> chain_kwargs \<Rightarrow> 'f world \<Rightarrow> (exn + chain) \<times> 'f world" where
  "from_chain_type env l name descr own chain_type chain_type_kwargs key url kwargs w =
     (case load_qa_chain env l chain_type (or_default chain_type_kwargs []) of
        Inl e \<Rightarrow> (Inl e, w)
      | Inr cdc \<Rightarrow>
          (case get_app_details env name own descr l kwargs w of
             Inl e \<Rightarrow> (Inl e, w)
           | Inr app \<Rightarrow>
               (case send_discover env app key url w of
                  (Inl e, w1) \<Rightarrow> (Inl e, w1)
                | (Inr u, w1) \<Rightarrow>
                    (case kw_retriever kwargs of
                       None \<Rightarrow>
                         (Inl (ValidationError [(''retriever'', ValueError ''field required'')]),
                          w1)
                     | Some r \<Rightarrow>
                         PebbloRetrievalQA env
                           \<lparr>combine_documents_chain = cdc,
                            input_key = or_default (kw_input_key kwargs) ''query'',
                            output_key = or_default (kw_output_key kwargs) ''result'',
                            return_source_documents =
                              or_default (kw_return_source_documents kwargs) False,
                            retriever = r,
                            auth_context_key =
                              or_default (kw_auth_context_key kwargs) ''auth_context'',
                            semantic_context_key =
                              or_default (kw_semantic_context_key kwargs) ''semantic_context'',
                            app_name = name, owner = own, description = descr,
                            api_key = key, classifier_url = url\<rparr>
                           w1))))"

section \<open>The enforcement-filter compiler\<close>

text \<open>
  The chain imports \<open>set_enforcement_filters\<close> from the module
  \<open>enforcement_filters\<close>, whose source is not part of this development.  The
  definitions of this section follow the specification of that module (its sections on
  the data model, the capability registry, the filter compiler and the enforcement
  coordinator).
\<close>

text \<open>
  Modelled from the spec: the error kinds of the enforcement-filter module (section 7),
  which is missing from the source.
\<close>

datatype compile_error =
    UnsupportedBackendError
  | UnsupportedFilterOperatorError
  | MissingFieldMappingError
  | InvalidConstraintError

text \<open>
  Modelled from the spec: the abstract metadata fields that a capability record maps to
  backend-native names (identity: principal and group; semantic: topic and entity); the
  module that declares them is missing from the source.
\<close>

datatype abstract_field = Principal | Group | Topic | Entity

text \<open>
  Modelled from the spec: the tree of a \<open>CompiledFilter\<close>, ``a tree of AND/OR/NOT
  nodes over field-comparison leaves''; the module that builds it is missing from the
  source.  \<open>Unrestricted\<close> is the empty filter.
\<close>

datatype filter_tree =
    Unrestricted
  | FEq string string
  | FIn string "string list"
  | FAnd filter_tree filter_tree
  | FOr filter_tree filter_tree
  | FNot filter_tree

text \<open>
  Modelled from the spec: \<open>CompiledFilter\<close>, the tree tagged with the backend
  identifier it was compiled for; missing from the source.
\<close>

record CompiledFilter =
  cf_backend :: string
  cf_tree :: filter_tree

text \<open>
  Modelled from the spec: \<open>BackendCapability\<close>, the supported logical operators and
  the field-name mapping of a backend; missing from the source.  The specification
  names structural limits only by example and its algorithm does not use them; they are
  not modelled.
\<close>

record BackendCapability =
  supports_and :: bool
  supports_or :: bool
  supports_not :: bool
  field_name :: "abstract_field \<Rightarrow> string option"

text \<open>
  Modelled from the spec: the capability registry, a static table from backend
  identifiers to capability records, with \<open>is_supported\<close> and \<open>get_capability\<close>
  (section 4.1); missing from the source.
\<close>

definition is_supported :: "(string \<times> BackendCapability) list \<Rightarrow> string \<Rightarrow> bool" where
  "is_supported registry backend \<longleftrightarrow> map_of registry backend \<noteq> None"


text \<open>
  Modelled from the spec: step 5 of the compiler, the mapping of an abstract field to
  the backend's native field name, failing with \<open>MissingFieldMappingError\<close>; missing
  from the source.
\<close>

definition native_field :: "BackendCapability \<Rightarrow> abstract_field \<Rightarrow> compile_error + string" where
  "native_field cap f =
     (case field_name cap f of
        None \<Rightarrow> Inl MissingFieldMappingError
      | Some n \<Rightarrow> Inr n)"

text \<open>
  Modelled from the spec: step 2 of the compiler, the identity clause: the principal
  field compared against \<open>user_id\<close>, the group field against the entries of
  \<open>user_auth\<close>, combined with OR; with an empty \<open>user_auth\<close> only the comparison
  of the principal is left.  Missing from the source.
\<close>

definition identity_clause :: "BackendCapability \<Rightarrow> AuthContext \<Rightarrow> compile_error + filter_tree" where
  "identity_clause cap a =
     (case native_field cap Principal of
        Inl e \<Rightarrow> Inl e
      | Inr p \<Rightarrow>
          if user_auth a = [] then Inr (FEq p (user_id a))
          else
            (case native_field cap Group of
               Inl e \<Rightarrow> Inl e
             | Inr g \<Rightarrow>
                 if supports_or cap then Inr (FOr (FEq p (user_id a)) (FIn g (user_auth a)))
                 else Inl UnsupportedFilterOperatorError))"

text \<open>
  Modelled from the spec: step 4 of the compiler, the conjunction of two clauses, either
  of which may be absent, using AND only where the backend supports it; missing from the
  source.
\<close>

fun conj_clauses ::
  "BackendCapability \<Rightarrow> filter_tree option \<Rightarrow> filter_tree option
     \<Rightarrow> compile_error + filter_tree option" where
  "conj_clauses cap None y = Inr y"
| "conj_clauses cap (Some x) None = Inr (Some x)"
| "conj_clauses cap (Some x) (Some y) =
     (if supports_and cap then Inr (Some (FAnd x y)) else Inl UnsupportedFilterOperatorError)"

text \<open>
  Modelled from the spec: step 3 of the compiler, the clause of one semantic dimension:
  a NOT-IN predicate over a non-empty deny list, whatever the allow list is, an IN
  predicate over a non-empty allow list, and no predicate when both are empty.  Missing
  from the source.
\<close>

definition dimension_clause ::
  "BackendCapability \<Rightarrow> abstract_field \<Rightarrow> string list \<Rightarrow> string list
     \<Rightarrow> compile_error + filter_tree option" where
  "dimension_clause cap f denied allowed =
     (if denied = [] \<and> allowed = [] then Inr None
      else
        (case native_field cap f of
           Inl e \<Rightarrow> Inl e
         | Inr n \<Rightarrow>
             if denied \<noteq> [] \<and> \<not> supports_not cap then Inl UnsupportedFilterOperatorError
             else conj_clauses cap
                    (if denied \<noteq> [] then Some (FNot (FIn n denied)) else None)
                    (if allowed \<noteq> [] then Some (FIn n allowed) else None)))"

text \<open>
  Modelled from the spec: the semantic clause, the topic clause AND the entity clause;
  missing from the source.
\<close>

definition semantic_clause ::
  "BackendCapability \<Rightarrow> SemanticContext \<Rightarrow> compile_error + filter_tree option" where
  "semantic_clause cap s =
     (case dimension_clause cap Topic (denied_topics s) (allowed_topics s) of
        Inl e \<Rightarrow> Inl e
      | Inr topic \<Rightarrow>
          (case dimension_clause cap Entity (denied_entities s) (allowed_entities s) of
             Inl e \<Rightarrow> Inl e
           | Inr entity \<Rightarrow> conj_clauses cap topic entity))"

text \<open>
  Modelled from the spec: ``a SemanticContext present but with all four sets empty is
  equivalent to absent''; missing from the source.
\<close>

definition empty_semantic :: SemanticContext where
  "empty_semantic =
     \<lparr>allowed_topics = [], denied_topics = [], allowed_entities = [], denied_entities = []\<rparr>"

text \<open>
  Modelled from the spec: an absent SemanticContext read as the empty one; missing from
  the source.
\<close>

definition semantic_or_empty :: "SemanticContext option \<Rightarrow> SemanticContext" where
  "semantic_or_empty s = (case s of None \<Rightarrow> empty_semantic | Some c \<Rightarrow> c)"

text \<open>
  Modelled from the spec: the SemanticContext is ``absent/empty''; missing from the
  source.
\<close>

definition no_semantic :: "SemanticContext option \<Rightarrow> bool" where
  "no_semantic s \<longleftrightarrow>
     allowed_topics (semantic_or_empty s) = [] \<and> denied_topics (semantic_or_empty s) = [] \<and>
     allowed_entities (semantic_or_empty s) = [] \<and> denied_entities (semantic_or_empty s) = []"

text \<open>
  Modelled from the spec: ``by default an absent AuthContext still produces an unknown
  user marker''; missing from the source.
\<close>

definition auth_or_unknown :: "AuthContext option \<Rightarrow> AuthContext" where
  "auth_or_unknown a =
     (case a of None \<Rightarrow> \<lparr>user_id = ''unknown'', user_auth = []\<rparr> | Some c \<Rightarrow> c)"

text \<open>
  Modelled from the spec: the filter compiler (section 4.2), missing from the source.
  With both contexts absent or empty the filter is empty if the caller has opted into
  that policy (\<open>opt_in\<close>); otherwise the identity clause, of the unknown user when
  there is no AuthContext, is combined with the semantic clause.
\<close>

definition compile_filter ::
  "bool \<Rightarrow> string \<Rightarrow> BackendCapability \<Rightarrow> AuthContext option \<Rightarrow> SemanticContext option
     \<Rightarrow> compile_error + CompiledFilter" where
  "compile_filter opt_in backend cap a s =
     (if opt_in \<and> a = None \<and> no_semantic s
      then Inr \<lparr>cf_backend = backend, cf_tree = Unrestricted\<rparr>
      else
        (case identity_clause cap (auth_or_unknown a) of
           Inl e \<Rightarrow> Inl e
         | Inr ident \<Rightarrow>
             (case semantic_clause cap (semantic_or_empty s) of
                Inl e \<Rightarrow> Inl e
              | Inr sem \<Rightarrow>
                  (case conj_clauses cap (Some ident) sem of
                     Inl e \<Rightarrow> Inl e
                   | Inr None \<Rightarrow> Inr \<lparr>cf_backend = backend, cf_tree = Unrestricted\<rparr>
                   | Inr (Some t) \<Rightarrow> Inr \<lparr>cf_backend = backend, cf_tree = t\<rparr>))))"

text \<open>
  Modelled from the spec: the label collections of the constraint model are sets
  (``insertion order irrelevant, values unique'', section 3); a request carries them as
  lists, and the compiler reads such a list as the set of its elements, held as the
  sorted list without duplicates.  Missing from the source.
\<close>

definition label_set :: "string list \<Rightarrow> string list" where
  "label_set xs = sort (remdups xs)"






text \<open>
  Modelled from the spec: the retriever handle of the enforcement coordinator
  (sections 4.3 and 6): the backend it targets and the slot for the filter of the next
  search; missing from the source.
\<close>

record handle =
  backend_id :: string
  next_filter :: "CompiledFilter option"



text \<open>
  Modelled from the spec: what a filter tree means on the metadata of a document, each
  field holding a list of values: a field equals a value, a field shares a value with a
  list, and the logical connectives.  The specification leaves the evaluation to the
  search engine.
\<close>

fun matches :: "filter_tree \<Rightarrow> (string \<Rightarrow> string list) \<Rightarrow> bool" where
  "matches Unrestricted md = True"
| "matches (FEq f v) md = (md f = [v])"
| "matches (FIn f vs) md = list_ex (\<lambda>x. x \<in> set vs) (md f)"
| "matches (FAnd x y) md = (matches x md \<and> matches y md)"
| "matches (FOr x y) md = (matches x md \<or> matches y md)"
| "matches (FNot x) md = (\<not> matches x md)"

text \<open>
  Modelled from the spec: the predicates that were added to a filter tree, those it
  combines with AND; missing from the source.
\<close>

fun conjuncts :: "filter_tree \<Rightarrow> filter_tree list" where
  "conjuncts (FAnd x y) = conjuncts x @ conjuncts y"
| "conjuncts t = [t]"

text \<open>
  Modelled from the spec: the predicates of a clause that may be absent (a dimension
  with neither list adds none); missing from the source.
\<close>

definition clause_conjuncts :: "filter_tree option \<Rightarrow> filter_tree list" where
  "clause_conjuncts c = (case c of None \<Rightarrow> [] | Some t \<Rightarrow> conjuncts t)"

section \<open>Observations on traces and on the network\<close>

fun is_enforcement :: "'f event \<Rightarrow> bool" where
  "is_enforcement (EnforcementFilters r a s) = True"
| "is_enforcement ev = False"

fun is_search :: "'f event \<Rightarrow> bool" where
  "is_search (SimilaritySearch r st q cb) = True"
| "is_search ev = False"

fun is_post :: "'f event \<Rightarrow> bool" where
  "is_post (HttpPost url hs pl) = True"
| "is_post ev = False"

text \<open>The events of the telemetry layer: HTTP posts and log records.\<close>

fun is_telemetry :: "'f event \<Rightarrow> bool" where
  "is_telemetry (HttpPost url hs pl) = True"
| "is_telemetry (LogDebug m) = True"
| "is_telemetry (LogWarning m) = True"
| "is_telemetry ev = False"

text \<open>The prompt payloads that were posted, in order.\<close>

fun posted_prompts :: "'f event list \<Rightarrow> Qa list" where
  "posted_prompts [] = []"
| "posted_prompts (HttpPost url hs (PromptPayload qa) # evs) = qa # posted_prompts evs"
| "posted_prompts (ev # evs) = posted_prompts evs"

text \<open>
  The prompt payload that \<open>_call\<close> builds when the authentication context is
  falsy: the user is the string \<open>unknown\<close> and there are no user identities.
\<close>

definition unknown_user_qa ::
  "chain \<Rightarrow> 'f vs_retriever \<Rightarrow> retrieved list \<Rightarrow> pyval \<Rightarrow> string \<Rightarrow> string \<Rightarrow> Qa" where
  "unknown_user_qa self retr docs question answer prompt_time =
     \<lparr>qa_name = app_name self,
      qa_context = context_entries (type_name (vectorstore retr)) docs,
      qa_prompt = question, qa_response = answer, qa_prompt_time = prompt_time,
      qa_user = ''unknown'', qa_user_identities = []\<rparr>"

text \<open>
  The outcomes of an HTTP call that the telemetry functions are written for: the call
  or the decoding of its response may raise, and what is raised is an \<open>Exception\<close>
  (a network failure, a malformed body); any status code may come back.
\<close>

definition raises_exceptions_only :: "'f env \<Rightarrow> bool" where
  "raises_exceptions_only env \<longleftrightarrow>
     (\<forall>tr url hs pl.
        case requests_post env tr url hs pl of
          Inl e \<Rightarrow> is_Exception e
        | Inr resp \<Rightarrow> (case json resp of Inl e \<Rightarrow> is_Exception e | Inr body \<Rightarrow> True))"

section \<open>A concrete chain\<close>

text \<open>
  A small instance on which the functions above can be evaluated: two store classes, one
  of them supported; an enforcement-filter function that writes the authentication
  context into \<open>search_kwargs\<close> and raises on a string; a search that returns one
  document; a telemetry server that answers 200.
\<close>

definition ex_Pinecone :: pyclass where
  "ex_Pinecone = \<lparr>cls_module = ''langchain_community.vectorstores.pinecone'', cls_name = ''Pinecone''\<rparr>"

definition ex_Chroma :: pyclass where
  "ex_Chroma = \<lparr>cls_module = ''langchain_community.vectorstores.chroma'', cls_name = ''Chroma''\<rparr>"

definition ex_store :: "pyclass \<Rightarrow> vector_store" where
  "ex_store c = \<lparr>vs_class = c, vs_bases = [], vs_embeddings = None, vs_embedding = None\<rparr>"

definition ex_set_filters ::
  "pyval vs_retriever \<Rightarrow> pyval \<Rightarrow> pyval \<Rightarrow> (exn + unit) \<times> pyval vs_retriever" where
  "ex_set_filters r a s =
     (case a of
        PyStr x \<Rightarrow> (Inl (AttributeError ''user_auth''), r)
      | _ \<Rightarrow> (Inr (), r\<lparr>search_kwargs := [(''filter'', a)]\<rparr>))"

definition ex_docs :: "retrieved list" where
  "ex_docs = [Document ''text'' [(''source'', ''file'')], NonDocument]"

definition ex_env :: "pyval env" where
  "ex_env =
     \<lparr>SUPPORTED_VECTORSTORES = [ex_Pinecone],
      set_enforcement_filters = ex_set_filters,
      get_relevant_documents = (\<lambda>r q cb. Inr ex_docs),
      aget_relevant_documents = (\<lambda>r q cb. Inr ex_docs),
      combine_run = (\<lambda>c ds q cb. Inr ''answer''),
      combine_arun = (\<lambda>c ds q cb. Inr ''answer''),
      load_qa_chain = (\<lambda>l t k. Inr 0),
      requests_post = (\<lambda>tr url hs pl. Inr \<lparr>status_code = 200, json = Inr ''{}''\<rparr>),
      datetime_now_isoformat = (\<lambda>tr. ''2024-01-01T00:00:00''),
      Qa_validation = (\<lambda>qa. None),
      get_runtime = (''langchain'', ''local''),
      APP_DISCOVER_URL = ''/v1/app/discover'',
      PROMPT_URL = ''/v1/prompt'',
      PEBBLO_CLOUD_URL = ''https://api.daxa.ai'',
      PLUGIN_VERSION = ''0.1.1''\<rparr>"

text \<open>The same instance with a telemetry server that cannot be reached.\<close>

definition ex_env_offline :: "pyval env" where
  "ex_env_offline =
     ex_env\<lparr>requests_post := (\<lambda>tr url hs pl. Inl (RequestException ''connection refused''))\<rparr>"

definition ex_world :: "pyclass \<Rightarrow> pyval world" where
  "ex_world c =
     \<lparr>heap = (\<lambda>r. \<lparr>vectorstore = ex_store c, search_kwargs = []\<rparr>),
      cls_discover_sent = False, cls_prompt_sent = False, trace = []\<rparr>"

definition ex_chain :: chain where
  "ex_chain =
     \<lparr>combine_documents_chain = 0, input_key = ''query'', output_key = ''result'',
      return_source_documents = True, retriever = 0, auth_context_key = ''auth_context'',
      semantic_context_key = ''semantic_context'', app_name = ''app'', owner = ''me'',
      description = ''demo'', api_key = None, classifier_url = ''http://localhost:8000''\<rparr>"

definition ex_llm :: llm where
  "ex_llm = \<lparr>llm_class_name = ''OpenAI'', llm_dict = [(''model_name'', Some ''gpt'')]\<rparr>"

definition ex_kwargs :: chain_kwargs where
  "ex_kwargs =
     \<lparr>kw_retriever = Some 0, kw_return_source_documents = None, kw_input_key = None,
      kw_output_key = None, kw_auth_context_key = None, kw_semantic_context_key = None\<rparr>"

text \<open>A backend with every operator and every field, and one without NOT.\<close>

definition ex_fields :: "abstract_field \<Rightarrow> string option" where
  "ex_fields f =
     (case f of
        Principal \<Rightarrow> Some ''principal''
      | Group \<Rightarrow> Some ''group''
      | Topic \<Rightarrow> Some ''topic''
      | Entity \<Rightarrow> Some ''entity'')"

definition ex_cap :: BackendCapability where
  "ex_cap = \<lparr>supports_and = True, supports_or = True, supports_not = True, field_name = ex_fields\<rparr>"

definition ex_cap_no_not :: BackendCapability where
  "ex_cap_no_not =
     \<lparr>supports_and = True, supports_or = True, supports_not = False, field_name = ex_fields\<rparr>"

definition ex_registry :: "(string \<times> BackendCapability) list" where
  "ex_registry = [(''X'', ex_cap), (''Y'', ex_cap_no_not)]"

definition ex_metadata :: "string \<Rightarrow> string list" where
  "ex_metadata f =
     (if f = ''group'' then [''team-a'', ''team-b'']
      else if f = ''topic'' then [''finance'']
      else if f = ''entity'' then [''ssn'']
      else [])"

definition ex_handle :: handle where
  "ex_handle = \<lparr>backend_id = ''X'', next_filter = None\<rparr>"

definition ex_alice :: AuthContext where
  "ex_alice = \<lparr>user_id = ''alice'', user_auth = [''team-a'']\<rparr>"

definition ex_deny_finance :: SemanticContext where
  "ex_deny_finance =
     \<lparr>allowed_topics = [''finance'', ''hr''], denied_topics = [''finance''],
      allowed_entities = [], denied_entities = [''ssn'']\<rparr>"





text \<open>The filter tree that the compiler builds for these two contexts.\<close>

definition ex_tree :: filter_tree where
  "ex_tree =
     FAnd (FOr (FEq ''principal'' ''alice'') (FIn ''group'' [''team-a'']))
       (FAnd (FAnd (FNot (FIn ''topic'' [''finance''])) (FIn ''topic'' [''finance'', ''hr'']))
          (FNot (FIn ''entity'' [''ssn''])))"

definition ex_inputs :: "(string \<times> pyval) list" where
  "ex_inputs = [(''query'', PyStr ''q'')]"

definition ex_inputs_none :: "(string \<times> pyval) list" where
  "ex_inputs_none =
     [(''query'', PyStr ''q''), (''auth_context'', PyNone), (''semantic_context'', PyNone)]"

definition ex_inputs_str :: "(string \<times> pyval) list" where
  "ex_inputs_str =
     [(''query'', PyStr ''q''), (''auth_context'', PyStr ''bob''), (''semantic_context'', PyNone)]"

definition ex_app :: App where
  "ex_app =
     \<lparr>app_name_of = ''app'', app_owner = ''me'', app_description = ''demo'',
      app_runtime = ''local'', app_framework = ''langchain'', app_chains = [],
      app_plugin_version = ''0.1.1''\<rparr>"

definition ex_qa :: Qa where
  "ex_qa =
     \<lparr>qa_name = ''app'', qa_context = [], qa_prompt = PyStr ''q'', qa_response = ''answer'',
      qa_prompt_time = ''2024-01-01T00:00:00'', qa_user = ''unknown'', qa_user_identities = []\<rparr>"

section \<open>The telemetry functions leave retrievers alone and emit telemetry events only\<close>

lemmas ex_defs = ex_env_def ex_world_def ex_chain_def ex_store_def ex_set_filters_def
  ex_inputs_def ex_inputs_none_def ex_inputs_str_def ex_Pinecone_def ex_Chroma_def ex_docs_def ex_qa_def

lemma try_except_heap: "try_except m1 m2 b = (r, w') \<Longrightarrow> heap w' = heap (snd b)"
  by (cases b) (auto simp: try_except_def emit_def split: sum.splits if_splits)

lemma post_local_heap:
  assumes "\<And>v. heap (set_sent v) = heap v"
  shows "heap (snd (post_local env url pl m1 m2 set_sent w)) = heap w"
  using assms by (simp add: post_local_def emit_def Let_def split: sum.splits)

lemma post_cloud_heap: "heap (snd (post_cloud env k url pl m w)) = heap w"
  by (simp add: post_cloud_def emit_def Let_def split: sum.splits)

lemma send_discover_heap: "send_discover env app key url w = (r, w') \<Longrightarrow> heap w' = heap w"
  unfolding send_discover_def
  by (auto split: prod.splits sum.splits option.splits dest!: try_except_heap
      simp: post_cloud_heap post_local_heap set_discover_sent_def)

lemma send_prompt_heap: "send_prompt env self qa w = (r, w') \<Longrightarrow> heap w' = heap w"
  unfolding send_prompt_def
  by (auto split: prod.splits sum.splits option.splits dest!: try_except_heap
      simp: post_cloud_heap post_local_heap set_prompt_sent_def)

lemma try_except_trace:
  "try_except m1 m2 b = (r, w') \<Longrightarrow>
     \<exists>evs. trace w' = trace (snd b) @ evs \<and> list_all is_telemetry evs"
  by (cases b) (auto simp: try_except_def emit_def split: sum.splits if_splits)

lemma post_local_trace:
  assumes "\<And>v. trace (set_sent v) = trace v"
  shows "\<exists>evs. trace (snd (post_local env url pl m1 m2 set_sent w)) = trace w @ evs
           \<and> list_all is_telemetry evs"
  using assms by (simp add: post_local_def emit_def Let_def split: sum.splits)

lemma post_cloud_trace:
  "\<exists>evs. trace (snd (post_cloud env k url pl m w)) = trace w @ evs \<and> list_all is_telemetry evs"
  by (simp add: post_cloud_def emit_def Let_def split: sum.splits)

lemma telemetry_trans:
  assumes "\<exists>evs. trace w1 = trace w @ evs \<and> list_all is_telemetry evs"
    and "\<exists>evs. trace w2 = trace w1 @ evs \<and> list_all is_telemetry evs"
  shows "\<exists>evs. trace w2 = trace w @ evs \<and> list_all is_telemetry evs"
proof -
  from assms(1) obtain e1 where e1: "trace w1 = trace w @ e1" "list_all is_telemetry e1" by blast
  from assms(2) obtain e2 where e2: "trace w2 = trace w1 @ e2" "list_all is_telemetry e2" by blast
  have "trace w2 = trace w @ (e1 @ e2)" using e1 e2 by simp
  moreover have "list_all is_telemetry (e1 @ e2)" using e1 e2 by simp
  ultimately show ?thesis by blast
qed

lemma send_discover_trace:
  assumes "send_discover env app key url w = (r, w')"
  shows "\<exists>evs. trace w' = trace w @ evs \<and> list_all is_telemetry evs"
proof -
  obtain r1 w1 where t1: "try_except ''Unable to reach pebblo server.''
             ''An Exception caught in _send_discover: local %s''
             (post_local env (url @ APP_DISCOVER_URL env) (DiscoverPayload app)
                ''discover-payload: %s'' send_discover_local_fmt set_discover_sent w) = (r1, w1)"
    by (meson surj_pair)
  have l: "\<exists>evs. trace w1 = trace w @ evs \<and> list_all is_telemetry evs"
    by (rule telemetry_trans [OF post_local_trace try_except_trace [OF t1]])
       (simp add: set_discover_sent_def)
  show ?thesis
  proof (cases "\<exists>k. r1 = Inr () \<and> key_given key = Some k")
    case False
    then have "w' = w1" using assms t1
      by (auto simp: send_discover_def split: sum.splits option.splits)
    then show ?thesis using l by simp
  next
    case True
    then obtain k where k: "r1 = Inr ()" "key_given key = Some k" by blast
    have t2: "try_except ''Unable to reach Pebblo cloud server.''
                 ''An Exception caught in _send_discover: cloud %s''
                 (post_cloud env k (PEBBLO_CLOUD_URL env @ APP_DISCOVER_URL env)
                    (DiscoverPayload app) send_discover_cloud_fmt w1) = (r, w')"
      using assms t1 k by (simp add: send_discover_def)
    show ?thesis
      by (rule telemetry_trans [OF l telemetry_trans [OF post_cloud_trace try_except_trace [OF t2]]])
  qed
qed

lemma send_prompt_trace:
  assumes "send_prompt env self qa w = (r, w')"
  shows "\<exists>evs. trace w' = trace w @ evs \<and> list_all is_telemetry evs"
proof -
  obtain r1 w1 where t1: "try_except ''Unable to reach pebblo server.''
             ''An Exception caught in _send_discover: local %s''
             (post_local env (classifier_url self @ PROMPT_URL env) (PromptPayload qa)
                ''prompt-payload: %s'' send_prompt_local_fmt set_prompt_sent w) = (r1, w1)"
    by (meson surj_pair)
  have l: "\<exists>evs. trace w1 = trace w @ evs \<and> list_all is_telemetry evs"
    by (rule telemetry_trans [OF post_local_trace try_except_trace [OF t1]])
       (simp add: set_prompt_sent_def)
  show ?thesis
  proof (cases "\<exists>k. r1 = Inr () \<and> key_given (api_key self) = Some k")
    case False
    then have "w' = w1" using assms t1
      by (auto simp: send_prompt_def split: sum.splits option.splits)
    then show ?thesis using l by simp
  next
    case True
    then obtain k where k: "r1 = Inr ()" "key_given (api_key self) = Some k" by blast
    have t2: "try_except ''Unable to reach Pebblo cloud server.''
                 ''An Exception caught in _send_prompt: cloud %s''
                 (post_cloud env k (PEBBLO_CLOUD_URL env @ PROMPT_URL env)
                    (PromptPayload qa) send_prompt_cloud_fmt w1) = (r, w')"
      using assms t1 k by (simp add: send_prompt_def)
    show ?thesis
      by (rule telemetry_trans [OF l telemetry_trans [OF post_cloud_trace try_except_trace [OF t2]]])
  qed
qed

subsection \<open>Construction with an unsupported vector store\<close>

lemma validate_unsupported:
  "\<not> list_ex (isinstance (vectorstore r)) S \<Longrightarrow>
     validate_vectorstore S r = Inl (ValueError (unsupported_message S (vectorstore r)))"
  by (simp add: validate_vectorstore_def)

lemma init_unsupported:
  assumes "\<not> list_ex (isinstance (vectorstore (heap w (retriever vals)))) (SUPPORTED_VECTORSTORES env)"
  shows "PebbloRetrievalQA env vals w =
           (Inl (ValidationError
                  [(''retriever'',
                    ValueError (unsupported_message (SUPPORTED_VECTORSTORES env)
                                  (vectorstore (heap w (retriever vals)))))]), w)"
  using validate_unsupported [OF assms] by (simp add: PebbloRetrievalQA_def)

lemma from_chain_type_unsupported:
  assumes "kw_retriever kwargs = Some r"
    and "\<not> list_ex (isinstance (vectorstore (heap w r))) (SUPPORTED_VECTORSTORES env)"
  shows "\<exists>e w' evs. from_chain_type env l name descr own ct ctk key url kwargs w = (Inl e, w')
           \<and> heap w' = heap w \<and> trace w' = trace w @ evs \<and> list_all is_telemetry evs"
proof (cases "load_qa_chain env l ct (or_default ctk [])")
  case (Inl e)
  then show ?thesis by (simp add: from_chain_type_def)
next
  case cdc: (Inr cdc)
  show ?thesis
  proof (cases "get_app_details env name own descr l kwargs w")
    case (Inl e)
    then show ?thesis using cdc by (simp add: from_chain_type_def)
  next
    case app: (Inr app)
    obtain r1 w1 where sd: "send_discover env app key url w = (r1, w1)" by (meson surj_pair)
    have h: "heap w1 = heap w" by (rule send_discover_heap [OF sd])
    from send_discover_trace [OF sd] obtain evs
      where evs: "trace w1 = trace w @ evs" "list_all is_telemetry evs" by blast
    show ?thesis
    proof (cases r1)
      case (Inl e)
      then show ?thesis using cdc app sd h evs by (simp add: from_chain_type_def)
    next
      case (Inr u)
      let ?vals = "\<lparr>combine_documents_chain = cdc,
                            input_key = or_default (kw_input_key kwargs) ''query'',
                            output_key = or_default (kw_output_key kwargs) ''result'',
                            return_source_documents =
                              or_default (kw_return_source_documents kwargs) False,
                            retriever = r,
                            auth_context_key =
                              or_default (kw_auth_context_key kwargs) ''auth_context'',
                            semantic_context_key =
                              or_default (kw_semantic_context_key kwargs) ''semantic_context'',
                            app_name = name, owner = own, description = descr,
                            api_key = key, classifier_url = url\<rparr>"
      have "\<not> list_ex (isinstance (vectorstore (heap w1 (retriever ?vals)))) (SUPPORTED_VECTORSTORES env)"
        using assms(2) h by simp
      from init_unsupported [OF this] obtain e
        where "PebbloRetrievalQA env ?vals w1 = (Inl e, w1)" by blast
      then show ?thesis using cdc app sd h evs Inr assms(1) by (simp add: from_chain_type_def)
    qed
  qed
qed

section \<open>Retrieval and failure of the enforcement filters\<close>

lemma get_docs_steps:
  assumes "set_enforcement_filters env (heap w (retriever self)) a s = (fres, r')"
  shows "fst (get_docs env self q a s rm w)
           = (case fres of Inl e \<Rightarrow> Inl e | Inr u \<Rightarrow> get_relevant_documents env r' q (get_child rm))"
    and "heap (snd (get_docs env self q a s rm w)) = (heap w)(retriever self := r')"
    and "trace (snd (get_docs env self q a s rm w))
           = trace w @ EnforcementFilters (retriever self) a s
               # (case fres of Inl e \<Rightarrow> [] | Inr u \<Rightarrow> [SimilaritySearch (retriever self) r' q (get_child rm)])"
    and "cls_prompt_sent (snd (get_docs env self q a s rm w)) = cls_prompt_sent w"
    and "cls_discover_sent (snd (get_docs env self q a s rm w)) = cls_discover_sent w"
  using assms by (simp_all add: get_docs_def emit_def Let_def split: sum.splits)

lemma aget_docs_steps:
  assumes "set_enforcement_filters env (heap w (retriever self)) a s = (fres, r')"
  shows "fst (aget_docs env self q a s rm w)
           = (case fres of Inl e \<Rightarrow> Inl e | Inr u \<Rightarrow> aget_relevant_documents env r' q (get_child rm))"
    and "heap (snd (aget_docs env self q a s rm w)) = (heap w)(retriever self := r')"
    and "trace (snd (aget_docs env self q a s rm w))
           = trace w @ EnforcementFilters (retriever self) a s
               # (case fres of Inl e \<Rightarrow> [] | Inr u \<Rightarrow> [SimilaritySearch (retriever self) r' q (get_child rm)])"
    and "cls_prompt_sent (snd (aget_docs env self q a s rm w)) = cls_prompt_sent w"
    and "cls_discover_sent (snd (aget_docs env self q a s rm w)) = cls_discover_sent w"
  using assms by (simp_all add: aget_docs_def emit_def Let_def split: sum.splits)

text \<open>
  C2.  Every retrieval, synchronous or asynchronous, first calls
  \<open>set_enforcement_filters\<close> on the retriever of the chain with the contexts of the
  current request, and the object keeps what that call did to it.  When the call
  returns, the search comes right after it, runs on the retriever as that call left it,
  and its outcome is what the retrieval returns; when the call raises, there is no
  search and the retrieval raises the same exception.
\<close>

theorem filters_set_before_search:
  "\<exists>fres r'.
     set_enforcement_filters env (heap w (retriever self)) a s = (fres, r')
     \<and> fst (get_docs env self q a s rm w)
         = (case fres of Inl e \<Rightarrow> Inl e
            | Inr u \<Rightarrow> get_relevant_documents env r' q (get_child rm))
     \<and> heap (snd (get_docs env self q a s rm w)) = (heap w)(retriever self := r')
     \<and> trace (snd (get_docs env self q a s rm w))
         = trace w @ EnforcementFilters (retriever self) a s
             # (case fres of Inl e \<Rightarrow> []
                | Inr u \<Rightarrow> [SimilaritySearch (retriever self) r' q (get_child rm)])
     \<and> fst (aget_docs env self q a s rm w)
         = (case fres of Inl e \<Rightarrow> Inl e
            | Inr u \<Rightarrow> aget_relevant_documents env r' q (get_child rm))
     \<and> heap (snd (aget_docs env self q a s rm w)) = (heap w)(retriever self := r')
     \<and> trace (snd (aget_docs env self q a s rm w))
         = trace w @ EnforcementFilters (retriever self) a s
             # (case fres of Inl e \<Rightarrow> []
                | Inr u \<Rightarrow> [SimilaritySearch (retriever self) r' q (get_child rm)])"
proof -
  obtain fres r' where f: "set_enforcement_filters env (heap w (retriever self)) a s = (fres, r')"
    by (meson surj_pair)
  show ?thesis
    using get_docs_steps(1,2,3) [OF f] aget_docs_steps(1,2,3) [OF f] f by simp
qed

theorem filters_set_before_search_witness:
  "set_enforcement_filters ex_env (heap (ex_world ex_Pinecone) (retriever ex_chain))
      (PyAuth ex_alice) PyNone
     = (Inr (), \<lparr>vectorstore = ex_store ex_Pinecone,
                 search_kwargs = [(''filter'', PyAuth ex_alice)]\<rparr>)
   \<and> fst (get_docs ex_env ex_chain (PyStr ''q'') (PyAuth ex_alice) PyNone NoopManager
            (ex_world ex_Pinecone)) = Inr ex_docs
   \<and> trace (snd (get_docs ex_env ex_chain (PyStr ''q'') (PyAuth ex_alice) PyNone NoopManager
            (ex_world ex_Pinecone)))
       = [EnforcementFilters 0 (PyAuth ex_alice) PyNone,
          SimilaritySearch 0
            \<lparr>vectorstore = ex_store ex_Pinecone, search_kwargs = [(''filter'', PyAuth ex_alice)]\<rparr>
            (PyStr ''q'') (Child NoopManager)]"
proof -
  let ?r = "\<lparr>vectorstore = ex_store ex_Pinecone, search_kwargs = [(''filter'', PyAuth ex_alice)]\<rparr>"
  have f: "set_enforcement_filters ex_env (heap (ex_world ex_Pinecone) (retriever ex_chain))
      (PyAuth ex_alice) PyNone = (Inr (), ?r)"
    by (simp add: ex_env_def ex_set_filters_def ex_world_def)
  have d: "\<And>r q cb. get_relevant_documents ex_env r q cb = Inr ex_docs"
    by (simp add: ex_env_def)
  have t: "trace (ex_world ex_Pinecone) = []" "retriever ex_chain = 0"
    "get_child NoopManager = Child NoopManager"
    by (simp_all add: ex_world_def ex_chain_def get_child_def)
  from filters_set_before_search [of ex_env "ex_world ex_Pinecone" ex_chain "PyAuth ex_alice"
      PyNone "PyStr ''q''" NoopManager]
  obtain fres r' where
    1: "set_enforcement_filters ex_env (heap (ex_world ex_Pinecone) (retriever ex_chain))
          (PyAuth ex_alice) PyNone = (fres, r')"
    and 2: "fst (get_docs ex_env ex_chain (PyStr ''q'') (PyAuth ex_alice) PyNone NoopManager
            (ex_world ex_Pinecone))
         = (case fres of Inl e \<Rightarrow> Inl e
            | Inr u \<Rightarrow> get_relevant_documents ex_env r' (PyStr ''q'') (get_child NoopManager))"
    and 3: "trace (snd (get_docs ex_env ex_chain (PyStr ''q'') (PyAuth ex_alice) PyNone NoopManager
            (ex_world ex_Pinecone)))
         = trace (ex_world ex_Pinecone) @ EnforcementFilters (retriever ex_chain) (PyAuth ex_alice) PyNone
             # (case fres of Inl e \<Rightarrow> []
                | Inr u \<Rightarrow> [SimilaritySearch (retriever ex_chain) r' (PyStr ''q'') (get_child NoopManager)])"
    by blast
  from 1 f have e: "fres = Inr ()" "r' = ?r" by simp_all
  from f 2 3 show ?thesis unfolding e by (simp add: d t)
qed

lemma get_docs_error:
  assumes "fst (set_enforcement_filters env (heap w (retriever self)) a s) = Inl e"
  shows "fst (get_docs env self q a s rm w) = Inl e"
    and "trace (snd (get_docs env self q a s rm w)) = trace w @ [EnforcementFilters (retriever self) a s]"
proof -
  obtain fres r' where f: "set_enforcement_filters env (heap w (retriever self)) a s = (fres, r')"
    by (meson surj_pair)
  with assms have "fres = Inl e" by simp
  with get_docs_steps(1,3) [OF f]
  show "fst (get_docs env self q a s rm w) = Inl e"
    and "trace (snd (get_docs env self q a s rm w)) = trace w @ [EnforcementFilters (retriever self) a s]"
    by simp_all
qed

lemma aget_docs_error:
  assumes "fst (set_enforcement_filters env (heap w (retriever self)) a s) = Inl e"
  shows "fst (aget_docs env self q a s rm w) = Inl e"
    and "trace (snd (aget_docs env self q a s rm w)) = trace w @ [EnforcementFilters (retriever self) a s]"
proof -
  obtain fres r' where f: "set_enforcement_filters env (heap w (retriever self)) a s = (fres, r')"
    by (meson surj_pair)
  with assms have "fres = Inl e" by simp
  with aget_docs_steps(1,3) [OF f]
  show "fst (aget_docs env self q a s rm w) = Inl e"
    and "trace (snd (aget_docs env self q a s rm w)) = trace w @ [EnforcementFilters (retriever self) a s]"
    by simp_all
qed

lemma call_docs_error:
  assumes "getitem inputs (input_key self) = Inr q"
    and "get_docs env self q (dict_get inputs (auth_context_key self) (PyDict []))
           (dict_get inputs (semantic_context_key self) (PyDict [])) (or_noop orm) w = (Inl e, w1)"
  shows "call env self inputs orm w = (Inl e, w1)"
  using assms by (simp add: call_def Let_def)

lemma acall_docs_error:
  assumes "getitem inputs (input_key self) = Inr q"
    and "aget_docs env self q (dict_get inputs (auth_context_key self) PyNone)
           (dict_get inputs (semantic_context_key self) PyNone) (or_noop orm) w = (Inl e, w1)"
  shows "acall env self inputs orm w = (Inl e, w1)"
  using assms by (simp add: acall_def Let_def)

text \<open>
  C4.  When \<open>set_enforcement_filters\<close> raises on the contexts of a request, the same
  exception comes out of \<open>_get_docs\<close> and \<open>_aget_docs\<close>, and out of \<open>_call\<close>
  and \<open>_acall\<close>; the only event is the call of the filter function: no search is
  run, no documents are returned, nothing is combined or posted.
\<close>

theorem compile_error_fails_closed:
  assumes "fst (set_enforcement_filters env (heap w (retriever self)) a s) = Inl e"
  shows "fst (get_docs env self q a s rm w) = Inl e
       \<and> trace (snd (get_docs env self q a s rm w))
           = trace w @ [EnforcementFilters (retriever self) a s]
       \<and> fst (aget_docs env self q a s rm w) = Inl e
       \<and> trace (snd (aget_docs env self q a s rm w))
           = trace w @ [EnforcementFilters (retriever self) a s]
       \<and> (\<forall>inputs orm.
            getitem inputs (input_key self) = Inr q
            \<and> dict_get inputs (auth_context_key self) (PyDict []) = a
            \<and> dict_get inputs (semantic_context_key self) (PyDict []) = s \<longrightarrow>
            fst (call env self inputs orm w) = Inl e
            \<and> trace (snd (call env self inputs orm w))
                = trace w @ [EnforcementFilters (retriever self) a s])
       \<and> (\<forall>inputs orm.
            getitem inputs (input_key self) = Inr q
            \<and> dict_get inputs (auth_context_key self) PyNone = a
            \<and> dict_get inputs (semantic_context_key self) PyNone = s \<longrightarrow>
            fst (acall env self inputs orm w) = Inl e
            \<and> trace (snd (acall env self inputs orm w))
                = trace w @ [EnforcementFilters (retriever self) a s])"
proof (intro conjI allI impI)
  show "fst (get_docs env self q a s rm w) = Inl e"
    and "trace (snd (get_docs env self q a s rm w)) = trace w @ [EnforcementFilters (retriever self) a s]"
    by (rule get_docs_error [OF assms])+
  show "fst (aget_docs env self q a s rm w) = Inl e"
    and "trace (snd (aget_docs env self q a s rm w)) = trace w @ [EnforcementFilters (retriever self) a s]"
    by (rule aget_docs_error [OF assms])+
next
  fix inputs orm
  assume h: "getitem inputs (input_key self) = Inr q
            \<and> dict_get inputs (auth_context_key self) (PyDict []) = a
            \<and> dict_get inputs (semantic_context_key self) (PyDict []) = s"
  let ?g = "get_docs env self q a s (or_noop orm) w"
  have "?g = (Inl e, snd ?g)" using get_docs_error(1) [OF assms, of q "or_noop orm"]
    by (metis prod.collapse)
  with h have c: "call env self inputs orm w = (Inl e, snd ?g)"
    using call_docs_error [of inputs self q env orm w e "snd ?g"] by simp
  show "fst (call env self inputs orm w) = Inl e" using c by simp
  show "trace (snd (call env self inputs orm w)) = trace w @ [EnforcementFilters (retriever self) a s]"
    using c get_docs_error(2) [OF assms, of q "or_noop orm"] by simp
next
  fix inputs orm
  assume h: "getitem inputs (input_key self) = Inr q
            \<and> dict_get inputs (auth_context_key self) PyNone = a
            \<and> dict_get inputs (semantic_context_key self) PyNone = s"
  let ?g = "aget_docs env self q a s (or_noop orm) w"
  have "?g = (Inl e, snd ?g)" using aget_docs_error(1) [OF assms, of q "or_noop orm"]
    by (metis prod.collapse)
  with h have c: "acall env self inputs orm w = (Inl e, snd ?g)"
    using acall_docs_error [of inputs self q env orm w e "snd ?g"] by simp
  show "fst (acall env self inputs orm w) = Inl e" using c by simp
  show "trace (snd (acall env self inputs orm w)) = trace w @ [EnforcementFilters (retriever self) a s]"
    using c aget_docs_error(2) [OF assms, of q "or_noop orm"] by simp
qed


theorem compile_error_fails_closed_witness:
  "fst (set_enforcement_filters ex_env (heap (ex_world ex_Pinecone) (retriever ex_chain))
          (PyStr ''bob'') PyNone) = Inl (AttributeError ''user_auth'')
   \<and> fst (get_docs ex_env ex_chain (PyStr ''q'') (PyStr ''bob'') PyNone NoopManager
            (ex_world ex_Pinecone)) = Inl (AttributeError ''user_auth'')
   \<and> getitem ex_inputs_str (input_key ex_chain) = Inr (PyStr ''q'')
   \<and> dict_get ex_inputs_str (auth_context_key ex_chain) (PyDict []) = PyStr ''bob''
   \<and> dict_get ex_inputs_str (semantic_context_key ex_chain) (PyDict []) = PyNone
   \<and> fst (call ex_env ex_chain ex_inputs_str None (ex_world ex_Pinecone))
       = Inl (AttributeError ''user_auth'')
   \<and> trace (snd (call ex_env ex_chain ex_inputs_str None (ex_world ex_Pinecone)))
       = [EnforcementFilters 0 (PyStr ''bob'') PyNone]
   \<and> dict_get ex_inputs_str (auth_context_key ex_chain) PyNone = PyStr ''bob''
   \<and> dict_get ex_inputs_str (semantic_context_key ex_chain) PyNone = PyNone
   \<and> fst (acall ex_env ex_chain ex_inputs_str None (ex_world ex_Pinecone))
       = Inl (AttributeError ''user_auth'')
   \<and> trace (snd (acall ex_env ex_chain ex_inputs_str None (ex_world ex_Pinecone)))
       = [EnforcementFilters 0 (PyStr ''bob'') PyNone]"
proof -
  have h: "fst (set_enforcement_filters ex_env (heap (ex_world ex_Pinecone) (retriever ex_chain))
          (PyStr ''bob'') PyNone) = Inl (AttributeError ''user_auth'')"
    by (simp add: ex_defs)
  have i: "getitem ex_inputs_str (input_key ex_chain) = Inr (PyStr ''q'')"
     "dict_get ex_inputs_str (auth_context_key ex_chain) (PyDict []) = PyStr ''bob''"
     "dict_get ex_inputs_str (semantic_context_key ex_chain) (PyDict []) = PyNone"
     "dict_get ex_inputs_str (auth_context_key ex_chain) PyNone = PyStr ''bob''"
     "dict_get ex_inputs_str (semantic_context_key ex_chain) PyNone = PyNone"
    by (simp_all add: ex_defs getitem_def dict_get_def)
  have t: "trace (ex_world ex_Pinecone) = []" "retriever ex_chain = 0"
    by (simp_all add: ex_defs)
  from compile_error_fails_closed [OF h, of "PyStr ''q''" NoopManager] h i t
  show ?thesis by simp
qed

section \<open>The class flags\<close>

lemma try_except_Inr: "try_except m1 m2 (Inr u, w) = (Inr u, w)"
  by (simp add: try_except_def)

lemma try_except_flags:
  "cls_prompt_sent (snd (try_except m1 m2 b)) = cls_prompt_sent (snd b)"
  "cls_discover_sent (snd (try_except m1 m2 b)) = cls_discover_sent (snd b)"
  by (cases b; simp add: try_except_def emit_def split: sum.splits)+

lemma post_cloud_flags:
  "cls_prompt_sent (snd (post_cloud env k url pl m w)) = cls_prompt_sent w"
  "cls_discover_sent (snd (post_cloud env k url pl m w)) = cls_discover_sent w"
  by (simp_all add: post_cloud_def emit_def Let_def split: sum.splits)

lemma post_local_sent:
  assumes "requests_post env (trace w) url json_headers pl = Inr resp"
    and "json resp = Inr body"
    and "status_code resp \<in> {HTTP_OK, HTTP_BAD_GATEWAY}"
  shows "post_local env url pl m1 m2 set_sent w
           = (Inr (), set_sent (emit (LogDebug m2) (emit (LogDebug m1)
                (emit (HttpPost url json_headers pl) w))))"
  using assms by (auto simp: post_local_def Let_def)

lemma send_prompt_sets_flag:
  assumes "requests_post env (trace w) (classifier_url self @ PROMPT_URL env) json_headers
             (PromptPayload qa) = Inr resp"
    and "json resp = Inr body"
    and "status_code resp \<in> {HTTP_OK, HTTP_BAD_GATEWAY}"
  shows "cls_prompt_sent (snd (send_prompt env self qa w))"
  unfolding send_prompt_def post_local_sent [OF assms] try_except_Inr
  by (simp add: try_except_flags post_cloud_flags set_prompt_sent_def emit_def
      split: option.splits prod.splits sum.splits)

lemma send_discover_sets_flag:
  assumes "requests_post env (trace w) (url @ APP_DISCOVER_URL env) json_headers
             (DiscoverPayload app) = Inr resp"
    and "json resp = Inr body"
    and "status_code resp \<in> {HTTP_OK, HTTP_BAD_GATEWAY}"
  shows "cls_discover_sent (snd (send_discover env app key url w))"
  unfolding send_discover_def post_local_sent [OF assms] try_except_Inr
  by (simp add: try_except_flags post_cloud_flags set_discover_sent_def emit_def
      split: option.splits prod.splits sum.splits)

text \<open>
  C8.  \<open>set_discover_sent\<close> and \<open>set_prompt_sent\<close> write the class attribute, not
  an attribute of an instance, so the flag is read as set through every chain object;
  after a chain has posted a prompt payload and the server has answered 200 or 502 with
  a JSON body, every chain object reads \<open>_prompt_sent\<close> as true, and likewise for
  the discovery payload.
\<close>

theorem sent_flags_are_class_state:
  "get_discover_sent other (set_discover_sent w)
   \<and> get_prompt_sent other (set_prompt_sent w)
   \<and> heap (set_discover_sent w) = heap w \<and> heap (set_prompt_sent w) = heap w
   \<and> (\<forall>resp body.
        requests_post env (trace w) (classifier_url self @ PROMPT_URL env) json_headers
          (PromptPayload qa) = Inr resp
        \<and> json resp = Inr body \<and> status_code resp \<in> {HTTP_OK, HTTP_BAD_GATEWAY} \<longrightarrow>
        get_prompt_sent other (snd (send_prompt env self qa w)))
   \<and> (\<forall>resp body.
        requests_post env (trace w) (url @ APP_DISCOVER_URL env) json_headers
          (DiscoverPayload app) = Inr resp
        \<and> json resp = Inr body \<and> status_code resp \<in> {HTTP_OK, HTTP_BAD_GATEWAY} \<longrightarrow>
        get_discover_sent other (snd (send_discover env app key url w)))"
  by (auto simp: get_discover_sent_def get_prompt_sent_def set_discover_sent_def
      set_prompt_sent_def intro: send_prompt_sets_flag send_discover_sets_flag)

theorem sent_flags_are_class_state_witness:
  "requests_post ex_env (trace (ex_world ex_Pinecone))
      (classifier_url ex_chain @ PROMPT_URL ex_env) json_headers (PromptPayload ex_qa)
     = Inr \<lparr>status_code = 200, json = Inr ''{}''\<rparr>
   \<and> \<not> get_prompt_sent (ex_chain\<lparr>app_name := ''other''\<rparr>) (ex_world ex_Pinecone)
   \<and> get_prompt_sent (ex_chain\<lparr>app_name := ''other''\<rparr>)
        (snd (send_prompt ex_env ex_chain ex_qa (ex_world ex_Pinecone)))
   \<and> requests_post ex_env (trace (ex_world ex_Pinecone))
      (''http://localhost:8000'' @ APP_DISCOVER_URL ex_env) json_headers (DiscoverPayload ex_app)
     = Inr \<lparr>status_code = 200, json = Inr ''{}''\<rparr>
   \<and> \<not> get_discover_sent ex_chain (ex_world ex_Pinecone)
   \<and> get_discover_sent ex_chain
        (snd (send_discover ex_env ex_app None ''http://localhost:8000'' (ex_world ex_Pinecone)))"
proof -
  have p: "requests_post ex_env (trace (ex_world ex_Pinecone))
      (classifier_url ex_chain @ PROMPT_URL ex_env) json_headers (PromptPayload ex_qa)
     = Inr \<lparr>status_code = 200, json = Inr ''{}''\<rparr>"
    by (simp add: ex_env_def)
  have q: "requests_post ex_env (trace (ex_world ex_Pinecone))
      (''http://localhost:8000'' @ APP_DISCOVER_URL ex_env) json_headers (DiscoverPayload ex_app)
     = Inr \<lparr>status_code = 200, json = Inr ''{}''\<rparr>"
    by (simp add: ex_env_def)
  have n: "\<not> get_prompt_sent (ex_chain\<lparr>app_name := ''other''\<rparr>) (ex_world ex_Pinecone)"
    "\<not> get_discover_sent ex_chain (ex_world ex_Pinecone)"
    by (simp_all add: get_prompt_sent_def get_discover_sent_def ex_world_def)
  from sent_flags_are_class_state [where other = "ex_chain\<lparr>app_name := ''other''\<rparr>"
      and w = "ex_world ex_Pinecone" and env = ex_env and self = ex_chain and qa = ex_qa] p
  have 1: "get_prompt_sent (ex_chain\<lparr>app_name := ''other''\<rparr>)
        (snd (send_prompt ex_env ex_chain ex_qa (ex_world ex_Pinecone)))"
    by (simp add: HTTP_OK_def)
  from sent_flags_are_class_state [where other = ex_chain
      and w = "ex_world ex_Pinecone" and env = ex_env and url = "''http://localhost:8000''"
      and app = ex_app and key = None] q
  have 2: "get_discover_sent ex_chain
        (snd (send_discover ex_env ex_app None ''http://localhost:8000'' (ex_world ex_Pinecone)))"
    by (simp add: HTTP_OK_def)
  from p q n 1 2 show ?thesis by simp
qed

section \<open>The telemetry functions catch what the network raises\<close>

lemma try_except_catches:
  assumes "\<And>e. fst b = Inl e \<Longrightarrow> is_Exception e"
  shows "fst (try_except m1 m2 b) = Inr ()"
  using assms by (cases b) (auto simp: try_except_def split: sum.splits)

lemma post_local_raises:
  assumes "raises_exceptions_only env"
    and "fst (post_local env url pl m1 m2 set_sent w) = Inl e"
  shows "is_Exception e"
proof -
  have p: "case requests_post env (trace w) url json_headers pl of
          Inl e \<Rightarrow> is_Exception e
        | Inr resp \<Rightarrow> (case json resp of Inl e \<Rightarrow> is_Exception e | Inr body \<Rightarrow> True)"
    using assms(1) unfolding raises_exceptions_only_def by blast
  show ?thesis using p assms(2)
    by (auto simp: post_local_def Let_def split: sum.splits if_splits)
qed

lemma post_cloud_raises:
  assumes "raises_exceptions_only env"
    and "fst (post_cloud env k url pl m w) = Inl e"
  shows "is_Exception e"
proof -
  have p: "case requests_post env (trace w) url (json_headers @ [(''x-api-key'', k)]) pl of
          Inl e \<Rightarrow> is_Exception e
        | Inr resp \<Rightarrow> (case json resp of Inl e \<Rightarrow> is_Exception e | Inr body \<Rightarrow> True)"
    using assms(1) unfolding raises_exceptions_only_def by blast
  show ?thesis using p assms(2)
    by (auto simp: post_cloud_def Let_def split: sum.splits if_splits)
qed

lemma send_prompt_never_raises:
  assumes "raises_exceptions_only env"
  shows "fst (send_prompt env self qa w) = Inr ()"
proof -
  let ?t = "try_except ''Unable to reach pebblo server.''
             ''An Exception caught in _send_discover: local %s''
             (post_local env (classifier_url self @ PROMPT_URL env) (PromptPayload qa)
                ''prompt-payload: %s'' send_prompt_local_fmt set_prompt_sent w)"
  have t: "fst ?t = Inr ()"
    by (rule try_except_catches) (rule post_local_raises [OF assms])
  then have t': "?t = (Inr (), snd ?t)" by (metis prod.collapse)
  show ?thesis
  proof (cases "key_given (api_key self)")
    case None
    then show ?thesis unfolding send_prompt_def by (subst t') simp
  next
    case (Some k)
    have "fst (try_except ''Unable to reach Pebblo cloud server.''
                 ''An Exception caught in _send_prompt: cloud %s''
                 (post_cloud env k (PEBBLO_CLOUD_URL env @ PROMPT_URL env)
                    (PromptPayload qa) send_prompt_cloud_fmt (snd ?t))) = Inr ()"
      by (rule try_except_catches) (rule post_cloud_raises [OF assms])
    then show ?thesis using Some unfolding send_prompt_def by (subst t') simp
  qed
qed

lemma send_discover_never_raises:
  assumes "raises_exceptions_only env"
  shows "fst (send_discover env app key url w) = Inr ()"
proof -
  let ?t = "try_except ''Unable to reach pebblo server.''
             ''An Exception caught in _send_discover: local %s''
             (post_local env (url @ APP_DISCOVER_URL env) (DiscoverPayload app)
                ''discover-payload: %s'' send_discover_local_fmt set_discover_sent w)"
  have t: "fst ?t = Inr ()"
    by (rule try_except_catches) (rule post_local_raises [OF assms])
  then have t': "?t = (Inr (), snd ?t)" by (metis prod.collapse)
  show ?thesis
  proof (cases "key_given key")
    case None
    then show ?thesis unfolding send_discover_def by (subst t') simp
  next
    case (Some k)
    have "fst (try_except ''Unable to reach Pebblo cloud server.''
                 ''An Exception caught in _send_discover: cloud %s''
                 (post_cloud env k (PEBBLO_CLOUD_URL env @ APP_DISCOVER_URL env)
                    (DiscoverPayload app) send_discover_cloud_fmt (snd ?t))) = Inr ()"
      by (rule try_except_catches) (rule post_cloud_raises [OF assms])
    then show ?thesis using Some unfolding send_discover_def by (subst t') simp
  qed
qed

section \<open>What a call posts and returns\<close>

lemma posted_prompts_append:
  "posted_prompts (xs @ ys) = posted_prompts xs @ posted_prompts ys"
  by (induction xs rule: posted_prompts.induct) simp_all

lemma get_docs_posted:
  "posted_prompts (trace (snd (get_docs env self q a s rm w))) = posted_prompts (trace w)"
proof -
  obtain fres r' where f: "set_enforcement_filters env (heap w (retriever self)) a s = (fres, r')"
    by (meson surj_pair)
  show ?thesis
    by (cases fres) (simp_all add: get_docs_steps(3) [OF f] posted_prompts_append)
qed

lemma result_dict_keys: "dom (result_dict self answer docs) = set (output_keys self)"
  by (auto simp: result_dict_def output_keys_def)

lemma user_of_falsy: "\<not> truthy a \<Longrightarrow> user_of a = Inr ''unknown''"
  by (simp add: user_of_def)

lemma user_identities_of_falsy: "\<not> truthy a \<Longrightarrow> user_identities_of a = Inr []"
  by (simp add: user_identities_of_def)

lemma build_qa_falsy:
  assumes "\<not> truthy a"
  shows "build_qa self w docs q answer t a =
           Inr \<lparr>qa_name = app_name self,
                qa_context = context_entries (type_name (vectorstore (heap w (retriever self)))) docs,
                qa_prompt = q, qa_response = answer, qa_prompt_time = t,
                qa_user = ''unknown'', qa_user_identities = []\<rparr>"
  using assms by (simp add: build_qa_def user_of_falsy user_identities_of_falsy)


lemma try_except_posted:
  "posted_prompts (trace (snd (try_except m1 m2 b))) = posted_prompts (trace (snd b))"
  by (cases b) (simp add: try_except_def emit_def posted_prompts_append split: sum.splits)

lemma post_local_posted:
  assumes "\<And>v. trace (set_sent v) = trace v"
  shows "posted_prompts (trace (snd (post_local env url (PromptPayload qa) m1 m2 set_sent w)))
           = posted_prompts (trace w) @ [qa]"
  using assms
  by (simp add: post_local_def emit_def Let_def posted_prompts_append split: sum.splits)

lemma post_cloud_posted:
  "posted_prompts (trace (snd (post_cloud env k url (PromptPayload qa) m w)))
     = posted_prompts (trace w) @ [qa]"
  by (simp add: post_cloud_def emit_def Let_def posted_prompts_append split: sum.splits)

lemma send_prompt_posted:
  "posted_prompts (trace (snd (send_prompt env self qa w)))
     \<in> {posted_prompts (trace w) @ [qa], posted_prompts (trace w) @ [qa, qa]}"
proof -
  let ?t = "try_except ''Unable to reach pebblo server.''
             ''An Exception caught in _send_discover: local %s''
             (post_local env (classifier_url self @ PROMPT_URL env) (PromptPayload qa)
                ''prompt-payload: %s'' send_prompt_local_fmt set_prompt_sent w)"
  obtain r1 w1 where t: "?t = (r1, w1)" by (meson surj_pair)
  have "posted_prompts (trace (snd ?t)) = posted_prompts (trace w) @ [qa]"
    by (simp add: try_except_posted post_local_posted set_prompt_sent_def)
  with t have p1: "posted_prompts (trace w1) = posted_prompts (trace w) @ [qa]" by simp
  show ?thesis
  proof (cases "\<exists>k. r1 = Inr () \<and> key_given (api_key self) = Some k")
    case False
    then have "snd (send_prompt env self qa w) = w1" using t
      by (auto simp: send_prompt_def split: sum.splits option.splits)
    then show ?thesis using p1 by simp
  next
    case True
    then obtain k where k: "r1 = Inr ()" "key_given (api_key self) = Some k" by blast
    have "send_prompt env self qa w = try_except ''Unable to reach Pebblo cloud server.''
                 ''An Exception caught in _send_prompt: cloud %s''
                 (post_cloud env k (PEBBLO_CLOUD_URL env @ PROMPT_URL env)
                    (PromptPayload qa) send_prompt_cloud_fmt w1)"
      using t k by (simp add: send_prompt_def)
    then show ?thesis using p1 by (simp add: try_except_posted post_cloud_posted)
  qed
qed


lemma call_success:
  fixes w :: "'f world"
  assumes "call env self inputs orm w = (Inr out, w')"
  shows "\<exists>q docs answer qa (w2 :: 'f world).
           getitem inputs (input_key self) = Inr q
           \<and> build_qa self w2 docs q answer (datetime_now_isoformat env (trace w))
               (dict_get inputs (auth_context_key self) (PyDict [])) = Inr qa
           \<and> out = result_dict self answer docs
           \<and> posted_prompts (trace w')
               \<in> {posted_prompts (trace w) @ [qa], posted_prompts (trace w) @ [qa, qa]}"
proof -
  let ?a = "dict_get inputs (auth_context_key self) (PyDict [])"
  let ?s = "dict_get inputs (semantic_context_key self) (PyDict [])"
  let ?rm = "or_noop orm"
  from assms obtain q where q: "getitem inputs (input_key self) = Inr q"
    by (cases "getitem inputs (input_key self)") (simp_all add: call_def Let_def)
  let ?g = "get_docs env self q ?a ?s ?rm w"
  obtain gr w1 where g: "?g = (gr, w1)" by (meson surj_pair)
  from assms q g obtain docs where docs: "gr = Inr docs"
    by (cases gr) (simp_all add: call_def Let_def)
  let ?w2 = "emit (CombineDocuments (combine_documents_chain self) docs q (get_child ?rm)) w1"
  from assms q g docs obtain answer
    where answer: "combine_run env (combine_documents_chain self) docs q (get_child ?rm) = Inr answer"
    by (cases "combine_run env (combine_documents_chain self) docs q (get_child ?rm)")
       (simp_all add: call_def Let_def)
  from assms q g docs answer obtain qa
    where qa: "build_qa self ?w2 docs q answer (datetime_now_isoformat env (trace w)) ?a = Inr qa"
    by (cases "build_qa self ?w2 docs q answer (datetime_now_isoformat env (trace w)) ?a")
       (simp_all add: call_def Let_def)
  from assms q g docs answer qa have v: "Qa_validation env qa = None"
    by (cases "Qa_validation env qa") (simp_all add: call_def Let_def)
  obtain sr w3 where sp: "send_prompt env self qa ?w2 = (sr, w3)" by (meson surj_pair)
  from assms q g docs answer qa v sp have res: "out = result_dict self answer docs" "w' = w3"
    by (cases sr; simp add: call_def Let_def)+
  have "posted_prompts (trace w1) = posted_prompts (trace w)"
    using get_docs_posted [of env self q ?a ?s ?rm w] g by simp
  then have "posted_prompts (trace ?w2) = posted_prompts (trace w)"
    by (simp add: emit_def posted_prompts_append)
  with send_prompt_posted [of env self qa ?w2] sp res
  have "posted_prompts (trace w')
          \<in> {posted_prompts (trace w) @ [qa], posted_prompts (trace w) @ [qa, qa]}"
    by simp
  with q qa res
  have "getitem inputs (input_key self) = Inr q
           \<and> build_qa self ?w2 docs q answer (datetime_now_isoformat env (trace w))
               (dict_get inputs (auth_context_key self) (PyDict [])) = Inr qa
           \<and> out = result_dict self answer docs
           \<and> posted_prompts (trace w')
               \<in> {posted_prompts (trace w) @ [qa], posted_prompts (trace w) @ [qa, qa]}"
    by simp
  then show ?thesis by blast
qed



section \<open>Telemetry never fails a request\<close>

lemma send_prompt_case:
  assumes "raises_exceptions_only env"
  shows "(case send_prompt env self qa w2 of
            (Inl e, w3) \<Rightarrow> f e w3
          | (Inr u, w3) \<Rightarrow> g u w3) = g () (snd (send_prompt env self qa w2))"
proof -
  obtain r w3 where s: "send_prompt env self qa w2 = (r, w3)" by (meson surj_pair)
  with send_prompt_never_raises [OF assms, of self qa w2] have "r = Inr ()" by simp
  with s show ?thesis by simp
qed

lemma call_result:
  assumes "raises_exceptions_only env"
  shows "fst (call env self inputs orm w) =
     (case getitem inputs (input_key self) of
        Inl e \<Rightarrow> Inl e
      | Inr q \<Rightarrow>
          (case get_docs env self q (dict_get inputs (auth_context_key self) (PyDict []))
                  (dict_get inputs (semantic_context_key self) (PyDict [])) (or_noop orm) w of
             (Inl e, w1) \<Rightarrow> Inl e
           | (Inr docs, w1) \<Rightarrow>
               (case combine_run env (combine_documents_chain self) docs q
                       (get_child (or_noop orm)) of
                  Inl e \<Rightarrow> Inl e
                | Inr answer \<Rightarrow>
                    (case build_qa self
                            (emit (CombineDocuments (combine_documents_chain self) docs q
                                     (get_child (or_noop orm))) w1)
                            docs q answer (datetime_now_isoformat env (trace w))
                            (dict_get inputs (auth_context_key self) (PyDict [])) of
                       Inl e \<Rightarrow> Inl e
                     | Inr qa \<Rightarrow>
                         (case Qa_validation env qa of
                            Some e \<Rightarrow> Inl e
                          | None \<Rightarrow> Inr (result_dict self answer docs))))))"
  unfolding call_def Let_def send_prompt_case [OF assms]
  by (simp split: sum.splits prod.splits option.splits)

lemma get_docs_requests_post:
  "get_docs (env\<lparr>requests_post := p\<rparr>) self q a s rm w = get_docs env self q a s rm w"
  by (simp add: get_docs_def Let_def split: prod.splits sum.splits)

lemma call_independent_of_network:
  assumes "raises_exceptions_only env" and "raises_exceptions_only (env\<lparr>requests_post := p\<rparr>)"
  shows "fst (call (env\<lparr>requests_post := p\<rparr>) self inputs orm w)
           = fst (call env self inputs orm w)"
  unfolding call_result [OF assms(1)] call_result [OF assms(2)] get_docs_requests_post
  by (simp split: sum.splits prod.splits option.splits)

text \<open>
  C9.  Whatever the telemetry server does (the post raises, the status is not 200, the
  body is not JSON), as long as what is raised is an \<open>Exception\<close>,
  \<open>_send_discover\<close> and \<open>_send_prompt\<close> return normally; and the value that
  \<open>_call\<close> returns (the answer, or the exception of another step) is the same under
  any two behaviours of the network.
\<close>

theorem telemetry_never_raises:
  assumes "raises_exceptions_only env"
  shows "fst (send_discover env app key url w) = Inr ()
       \<and> fst (send_prompt env self qa w) = Inr ()
       \<and> (\<forall>p inputs orm. raises_exceptions_only (env\<lparr>requests_post := p\<rparr>) \<longrightarrow>
            fst (call (env\<lparr>requests_post := p\<rparr>) self inputs orm w)
              = fst (call env self inputs orm w))"
  using assms
  by (simp add: send_discover_never_raises send_prompt_never_raises
      call_independent_of_network)


theorem telemetry_never_raises_witness:
  "raises_exceptions_only ex_env \<and> raises_exceptions_only ex_env_offline
   \<and> fst (send_prompt ex_env_offline ex_chain ex_qa (ex_world ex_Pinecone)) = Inr ()
   \<and> fst (call ex_env_offline ex_chain ex_inputs None (ex_world ex_Pinecone))
       = fst (call ex_env ex_chain ex_inputs None (ex_world ex_Pinecone))"
proof -
  have a: "raises_exceptions_only ex_env"
    by (simp add: raises_exceptions_only_def ex_env_def)
  have b: "raises_exceptions_only ex_env_offline"
    by (simp add: raises_exceptions_only_def ex_env_offline_def)
  have c: "fst (send_prompt ex_env_offline ex_chain ex_qa (ex_world ex_Pinecone)) = Inr ()"
    using telemetry_never_raises [OF b] by blast
  have d: "fst (call ex_env_offline ex_chain ex_inputs None (ex_world ex_Pinecone))
       = fst (call ex_env ex_chain ex_inputs None (ex_world ex_Pinecone))"
    using telemetry_never_raises [OF a] b unfolding ex_env_offline_def by blast
  from a b c d show ?thesis by simp
qed

section \<open>An absent authentication context\<close>

lemma call_falsy_ok:
  fixes w :: "'f world"
  assumes q: "getitem inputs (input_key self) = Inr q"
    and a: "\<not> truthy (dict_get inputs (auth_context_key self) (PyDict []))"
    and f: "set_enforcement_filters env (heap w (retriever self))
              (dict_get inputs (auth_context_key self) (PyDict []))
              (dict_get inputs (semantic_context_key self) (PyDict [])) = (Inr (), r')"
    and d: "get_relevant_documents env r' q (get_child (or_noop orm)) = Inr docs"
    and c: "combine_run env (combine_documents_chain self) docs q (get_child (or_noop orm))
              = Inr answer"
    and v: "Qa_validation env
              \<lparr>qa_name = app_name self,
               qa_context = context_entries (type_name (vectorstore r')) docs,
               qa_prompt = q, qa_response = answer,
               qa_prompt_time = datetime_now_isoformat env (trace w),
               qa_user = ''unknown'', qa_user_identities = []\<rparr> = None"
    and n: "raises_exceptions_only env"
  shows "fst (call env self inputs orm w) = Inr (result_dict self answer docs)"
    and "posted_prompts (trace (snd (call env self inputs orm w)))
           \<in> {posted_prompts (trace w) @
                [\<lparr>qa_name = app_name self,
                  qa_context = context_entries (type_name (vectorstore r')) docs,
                  qa_prompt = q, qa_response = answer,
                  qa_prompt_time = datetime_now_isoformat env (trace w),
                  qa_user = ''unknown'', qa_user_identities = []\<rparr>],
               posted_prompts (trace w) @
                [\<lparr>qa_name = app_name self,
                  qa_context = context_entries (type_name (vectorstore r')) docs,
                  qa_prompt = q, qa_response = answer,
                  qa_prompt_time = datetime_now_isoformat env (trace w),
                  qa_user = ''unknown'', qa_user_identities = []\<rparr>,
                 \<lparr>qa_name = app_name self,
                  qa_context = context_entries (type_name (vectorstore r')) docs,
                  qa_prompt = q, qa_response = answer,
                  qa_prompt_time = datetime_now_isoformat env (trace w),
                  qa_user = ''unknown'', qa_user_identities = []\<rparr>]}"
proof -
  let ?a = "dict_get inputs (auth_context_key self) (PyDict [])"
  let ?s = "dict_get inputs (semantic_context_key self) (PyDict [])"
  let ?rm = "or_noop orm"
  let ?qa = "\<lparr>qa_name = app_name self,
               qa_context = context_entries (type_name (vectorstore r')) docs,
               qa_prompt = q, qa_response = answer,
               qa_prompt_time = datetime_now_isoformat env (trace w),
               qa_user = ''unknown'', qa_user_identities = []\<rparr>"
  obtain gr w1 where gw: "get_docs env self q ?a ?s ?rm w = (gr, w1)" by (meson surj_pair)
  have g1: "gr = Inr docs" using get_docs_steps(1) [OF f, of q ?rm] d gw by simp
  have g2: "heap w1 (retriever self) = r'" using get_docs_steps(2) [OF f, of q ?rm] gw by simp
  let ?w2 = "emit (CombineDocuments (combine_documents_chain self) docs q (get_child ?rm)) w1"
  have h2: "heap ?w2 (retriever self) = r'" using g2 by (simp add: emit_def)
  have b: "build_qa self ?w2 docs q answer (datetime_now_isoformat env (trace w)) ?a = Inr ?qa"
    using build_qa_falsy [OF a, of self ?w2 docs q answer "datetime_now_isoformat env (trace w)"] h2
    by simp
  obtain sr w3 where sw: "send_prompt env self ?qa ?w2 = (sr, w3)" by (meson surj_pair)
  have s1: "sr = Inr ()" using send_prompt_never_raises [OF n, of self ?qa ?w2] sw by simp
  have cl: "call env self inputs orm w = (Inr (result_dict self answer docs), w3)"
    using gw [unfolded g1] by (simp add: call_def Let_def q c b v sw s1)
  show "fst (call env self inputs orm w) = Inr (result_dict self answer docs)"
    using cl by simp
  have "posted_prompts (trace w1) = posted_prompts (trace w)"
    using get_docs_posted [of env self q ?a ?s ?rm w] gw by simp
  then have p2: "posted_prompts (trace ?w2) = posted_prompts (trace w)"
    by (simp add: emit_def posted_prompts_append)
  show "posted_prompts (trace (snd (call env self inputs orm w)))
           \<in> {posted_prompts (trace w) @ [?qa], posted_prompts (trace w) @ [?qa, ?qa]}"
    using send_prompt_posted [of env self ?qa ?w2] p2 cl sw by simp
qed

text \<open>
  C6.  When the authentication context of a request is absent or falsy (the key is
  missing, so the default \<open>{}\<close> is used, or the value is \<open>None\<close> or empty), building
  the prompt payload does not fail, its user is the string \<open>unknown\<close> and its user
  identities are the empty list.  The request does not fail for want of an identity:
  when the steps outside this class succeed (the filter function accepts the contexts,
  the search and the combine-documents chain return, the payload passes validation, and
  the network raises nothing but exceptions), \<open>_call\<close> returns the answer and has
  posted that payload, once or twice.  Every prompt payload that a successful
  \<open>_call\<close> posts carries these two values.
\<close>

theorem absent_auth_recorded_unknown:
  fixes w w0 :: "'f world"
  assumes "\<not> truthy auth_context"
  shows "user_of auth_context = Inr ''unknown''
       \<and> user_identities_of auth_context = Inr []
       \<and> build_qa self w0 docs0 q0 answer0 t0 auth_context =
           Inr (unknown_user_qa self (heap w0 (retriever self)) docs0 q0 answer0 t0)
       \<and> qa_user (unknown_user_qa self (heap w0 (retriever self)) docs0 q0 answer0 t0)
           = ''unknown''
       \<and> qa_user_identities (unknown_user_qa self (heap w0 (retriever self)) docs0 q0 answer0 t0)
           = []
       \<and> (\<forall>(env :: 'f env) inputs orm q r' docs answer.
            getitem inputs (input_key self) = Inr q
            \<and> dict_get inputs (auth_context_key self) (PyDict []) = auth_context
            \<and> set_enforcement_filters env (heap w (retriever self)) auth_context
                 (dict_get inputs (semantic_context_key self) (PyDict [])) = (Inr (), r')
            \<and> get_relevant_documents env r' q (get_child (or_noop orm)) = Inr docs
            \<and> combine_run env (combine_documents_chain self) docs q (get_child (or_noop orm))
                 = Inr answer
            \<and> Qa_validation env
                 (unknown_user_qa self r' docs q answer (datetime_now_isoformat env (trace w)))
                 = None
            \<and> raises_exceptions_only env \<longrightarrow>
            fst (call env self inputs orm w) = Inr (result_dict self answer docs)
            \<and> posted_prompts (trace (snd (call env self inputs orm w)))
                \<in> {posted_prompts (trace w) @
                     [unknown_user_qa self r' docs q answer (datetime_now_isoformat env (trace w))],
                    posted_prompts (trace w) @
                     [unknown_user_qa self r' docs q answer (datetime_now_isoformat env (trace w)),
                      unknown_user_qa self r' docs q answer (datetime_now_isoformat env (trace w))]})
       \<and> (\<forall>(env :: 'f env) inputs orm out w'.
            dict_get inputs (auth_context_key self) (PyDict []) = auth_context
            \<and> call env self inputs orm w = (Inr out, w') \<longrightarrow>
            (\<exists>qa. qa_user qa = ''unknown'' \<and> qa_user_identities qa = []
                \<and> posted_prompts (trace w')
                    \<in> {posted_prompts (trace w) @ [qa], posted_prompts (trace w) @ [qa, qa]}))"
proof (intro conjI allI impI)
  show "user_of auth_context = Inr ''unknown''" by (rule user_of_falsy [OF assms])
  show "user_identities_of auth_context = Inr []" by (rule user_identities_of_falsy [OF assms])
  show "build_qa self w0 docs0 q0 answer0 t0 auth_context =
           Inr (unknown_user_qa self (heap w0 (retriever self)) docs0 q0 answer0 t0)"
    unfolding unknown_user_qa_def by (rule build_qa_falsy [OF assms])
  show "qa_user (unknown_user_qa self (heap w0 (retriever self)) docs0 q0 answer0 t0)
           = ''unknown''"
    and "qa_user_identities (unknown_user_qa self (heap w0 (retriever self)) docs0 q0 answer0 t0)
           = []"
    by (simp_all add: unknown_user_qa_def)
next
  fix env :: "'f env" and inputs orm q r' docs answer
  assume h: "getitem inputs (input_key self) = Inr q
            \<and> dict_get inputs (auth_context_key self) (PyDict []) = auth_context
            \<and> set_enforcement_filters env (heap w (retriever self)) auth_context
                 (dict_get inputs (semantic_context_key self) (PyDict [])) = (Inr (), r')
            \<and> get_relevant_documents env r' q (get_child (or_noop orm)) = Inr docs
            \<and> combine_run env (combine_documents_chain self) docs q (get_child (or_noop orm))
                 = Inr answer
            \<and> Qa_validation env
                 (unknown_user_qa self r' docs q answer (datetime_now_isoformat env (trace w)))
                 = None
            \<and> raises_exceptions_only env"
  note ok = call_falsy_ok [where inputs = inputs and self = self and q = q and env = env
      and w = w and r' = r' and orm = orm and docs = docs and answer = answer,
      folded unknown_user_qa_def]
  have a: "\<not> truthy (dict_get inputs (auth_context_key self) (PyDict []))" using h assms by simp
  show "fst (call env self inputs orm w) = Inr (result_dict self answer docs)"
    by (rule ok(1)) (simp_all add: h a assms)
  show "posted_prompts (trace (snd (call env self inputs orm w)))
                \<in> {posted_prompts (trace w) @
                     [unknown_user_qa self r' docs q answer (datetime_now_isoformat env (trace w))],
                    posted_prompts (trace w) @
                     [unknown_user_qa self r' docs q answer (datetime_now_isoformat env (trace w)),
                      unknown_user_qa self r' docs q answer (datetime_now_isoformat env (trace w))]}"
    by (rule ok(2)) (simp_all add: h a assms)
next
  fix env :: "'f env" and inputs orm out and w' :: "'f world"
  assume h: "dict_get inputs (auth_context_key self) (PyDict []) = auth_context
            \<and> call env self inputs orm w = (Inr out, w')"
  then have c: "call env self inputs orm w = (Inr out, w')" by simp
  from call_success [OF c] obtain q' docs' answer' qa and w2 :: "'f world"
    where b: "build_qa self w2 docs' q' answer' (datetime_now_isoformat env (trace w))
               (dict_get inputs (auth_context_key self) (PyDict [])) = Inr qa"
      and p: "posted_prompts (trace w')
               \<in> {posted_prompts (trace w) @ [qa], posted_prompts (trace w) @ [qa, qa]}"
    by blast
  from b h have "build_qa self w2 docs' q' answer' (datetime_now_isoformat env (trace w))
      auth_context = Inr qa" by simp
  with build_qa_falsy [OF assms, of self w2 docs' q' answer' "datetime_now_isoformat env (trace w)"]
  have "qa_user qa = ''unknown'' \<and> qa_user_identities qa = []" by auto
  with p show "\<exists>qa. qa_user qa = ''unknown'' \<and> qa_user_identities qa = []
                \<and> posted_prompts (trace w')
                    \<in> {posted_prompts (trace w) @ [qa], posted_prompts (trace w) @ [qa, qa]}"
    by blast
qed

lemma ex_env_raises: "raises_exceptions_only ex_env"
  by (simp add: raises_exceptions_only_def ex_env_def)

lemma ex_call:
  "fst (call ex_env ex_chain ex_inputs None (ex_world ex_Pinecone))
     = Inr (result_dict ex_chain ''answer'' ex_docs)"
  unfolding call_result [OF ex_env_raises]
  by (simp add: ex_defs getitem_def dict_get_def get_docs_def
      emit_def Let_def build_qa_def user_of_def user_identities_of_def or_noop_def get_child_def)

lemma ex_acall:
  "fst (acall ex_env ex_chain ex_inputs None (ex_world ex_Pinecone))
     = Inr (result_dict ex_chain ''answer'' ex_docs)"
  by (simp add: acall_def ex_defs getitem_def dict_get_def aget_docs_def
      emit_def Let_def or_noop_def get_child_def)

theorem absent_auth_recorded_unknown_witness:
  "\<not> truthy PyNone
   \<and> getitem ex_inputs_none (input_key ex_chain) = Inr (PyStr ''q'')
   \<and> dict_get ex_inputs_none (auth_context_key ex_chain) (PyDict []) = PyNone
   \<and> raises_exceptions_only ex_env
   \<and> fst (call ex_env ex_chain ex_inputs_none None (ex_world ex_Pinecone))
       = Inr (result_dict ex_chain ''answer'' ex_docs)
   \<and> posted_prompts (trace (snd (call ex_env ex_chain ex_inputs_none None
         (ex_world ex_Pinecone))))
       \<in> {[\<lparr>qa_name = ''app'',
              qa_context = [\<lparr>retrieved_from = Some ''file'', doc = ''text'',
                             vector_db = ''Pinecone''\<rparr>],
              qa_prompt = PyStr ''q'', qa_response = ''answer'',
              qa_prompt_time = ''2024-01-01T00:00:00'',
              qa_user = ''unknown'', qa_user_identities = []\<rparr>],
           [\<lparr>qa_name = ''app'',
              qa_context = [\<lparr>retrieved_from = Some ''file'', doc = ''text'',
                             vector_db = ''Pinecone''\<rparr>],
              qa_prompt = PyStr ''q'', qa_response = ''answer'',
              qa_prompt_time = ''2024-01-01T00:00:00'',
              qa_user = ''unknown'', qa_user_identities = []\<rparr>,
            \<lparr>qa_name = ''app'',
              qa_context = [\<lparr>retrieved_from = Some ''file'', doc = ''text'',
                             vector_db = ''Pinecone''\<rparr>],
              qa_prompt = PyStr ''q'', qa_response = ''answer'',
              qa_prompt_time = ''2024-01-01T00:00:00'',
              qa_user = ''unknown'', qa_user_identities = []\<rparr>]}
   \<and> (\<exists>qa. qa_user qa = ''unknown'' \<and> qa_user_identities qa = []
          \<and> posted_prompts (trace (snd (call ex_env ex_chain ex_inputs_none None
                (ex_world ex_Pinecone)))) \<in> {[qa], [qa, qa]})"
proof -
  let ?w = "ex_world ex_Pinecone"
  let ?c = "call ex_env ex_chain ex_inputs_none None ?w"
  let ?r = "\<lparr>vectorstore = ex_store ex_Pinecone, search_kwargs = [(''filter'', PyNone)]\<rparr>"
  have f: "\<not> truthy PyNone" by simp
  have i: "getitem ex_inputs_none (input_key ex_chain) = Inr (PyStr ''q'')"
    "dict_get ex_inputs_none (auth_context_key ex_chain) (PyDict []) = PyNone"
    "dict_get ex_inputs_none (semantic_context_key ex_chain) (PyDict []) = PyNone"
    by (simp_all add: ex_defs getitem_def dict_get_def)
  have e: "set_enforcement_filters ex_env (heap ?w (retriever ex_chain)) PyNone PyNone
             = (Inr (), ?r)"
    by (simp add: ex_env_def ex_set_filters_def ex_world_def)
  have d: "\<And>r q cb. get_relevant_documents ex_env r q cb = Inr ex_docs"
    "\<And>c ds q cb. combine_run ex_env c ds q cb = Inr ''answer''"
    "\<And>qa. Qa_validation ex_env qa = None"
    by (simp_all add: ex_env_def)
  have t: "posted_prompts (trace ?w) = []" by (simp add: ex_world_def)
  have u: "unknown_user_qa ex_chain ?r ex_docs (PyStr ''q'') ''answer''
             (datetime_now_isoformat ex_env (trace ?w))
           = \<lparr>qa_name = ''app'',
              qa_context = [\<lparr>retrieved_from = Some ''file'', doc = ''text'',
                             vector_db = ''Pinecone''\<rparr>],
              qa_prompt = PyStr ''q'', qa_response = ''answer'',
              qa_prompt_time = ''2024-01-01T00:00:00'',
              qa_user = ''unknown'', qa_user_identities = []\<rparr>"
    by (simp add: unknown_user_qa_def ex_defs type_name_def)
  note th = absent_auth_recorded_unknown [where auth_context = PyNone and w = ?w
      and self = ex_chain, OF f]
  note new = th [THEN conjunct2, THEN conjunct2, THEN conjunct2, THEN conjunct2, THEN conjunct2,
      THEN conjunct1, rule_format, where env = ex_env and inputs = ex_inputs_none
      and orm = None and q = "PyStr ''q''" and r' = ?r and docs = ex_docs and answer = "''answer''"]
  have h: "getitem ex_inputs_none (input_key ex_chain) = Inr (PyStr ''q'')
            \<and> dict_get ex_inputs_none (auth_context_key ex_chain) (PyDict []) = PyNone
            \<and> set_enforcement_filters ex_env (heap ?w (retriever ex_chain)) PyNone
                 (dict_get ex_inputs_none (semantic_context_key ex_chain) (PyDict [])) = (Inr (), ?r)
            \<and> get_relevant_documents ex_env ?r (PyStr ''q'') (get_child (or_noop None)) = Inr ex_docs
            \<and> combine_run ex_env (combine_documents_chain ex_chain) ex_docs (PyStr ''q'')
                 (get_child (or_noop None)) = Inr ''answer''
            \<and> Qa_validation ex_env
                 (unknown_user_qa ex_chain ?r ex_docs (PyStr ''q'') ''answer''
                    (datetime_now_isoformat ex_env (trace ?w))) = None
            \<and> raises_exceptions_only ex_env"
    by (simp add: i e d ex_env_raises)
  from new [OF h] have 1: "fst ?c = Inr (result_dict ex_chain ''answer'' ex_docs)"
    and 2: "posted_prompts (trace (snd ?c))
       \<in> {[\<lparr>qa_name = ''app'',
              qa_context = [\<lparr>retrieved_from = Some ''file'', doc = ''text'',
                             vector_db = ''Pinecone''\<rparr>],
              qa_prompt = PyStr ''q'', qa_response = ''answer'',
              qa_prompt_time = ''2024-01-01T00:00:00'',
              qa_user = ''unknown'', qa_user_identities = []\<rparr>],
           [\<lparr>qa_name = ''app'',
              qa_context = [\<lparr>retrieved_from = Some ''file'', doc = ''text'',
                             vector_db = ''Pinecone''\<rparr>],
              qa_prompt = PyStr ''q'', qa_response = ''answer'',
              qa_prompt_time = ''2024-01-01T00:00:00'',
              qa_user = ''unknown'', qa_user_identities = []\<rparr>,
            \<lparr>qa_name = ''app'',
              qa_context = [\<lparr>retrieved_from = Some ''file'', doc = ''text'',
                             vector_db = ''Pinecone''\<rparr>],
              qa_prompt = PyStr ''q'', qa_response = ''answer'',
              qa_prompt_time = ''2024-01-01T00:00:00'',
              qa_user = ''unknown'', qa_user_identities = []\<rparr>]}"
    unfolding u t by simp_all
  have c: "?c = (Inr (result_dict ex_chain ''answer'' ex_docs), snd ?c)"
    using 1 by (metis prod.collapse)
  note old = th [THEN conjunct2, THEN conjunct2, THEN conjunct2, THEN conjunct2, THEN conjunct2,
      THEN conjunct2, rule_format, where env = ex_env and inputs = ex_inputs_none
      and orm = None and out = "result_dict ex_chain ''answer'' ex_docs" and w' = "snd ?c"]
  have 3: "\<exists>qa. qa_user qa = ''unknown'' \<and> qa_user_identities qa = []
          \<and> posted_prompts (trace (snd ?c)) \<in> {[qa], [qa, qa]}"
    using old [OF conjI [OF i(2) c]] unfolding t by simp
  from f i(1,2) ex_env_raises 1 2 3 show ?thesis by (intro conjI)
qed

section \<open>The asynchronous call\<close>

lemma aget_docs_quiet:
  "filter is_telemetry (trace (snd (aget_docs env self q a s rm w))) = filter is_telemetry (trace w)"
  "posted_prompts (trace (snd (aget_docs env self q a s rm w))) = posted_prompts (trace w)"
  "cls_prompt_sent (snd (aget_docs env self q a s rm w)) = cls_prompt_sent w"
  "cls_discover_sent (snd (aget_docs env self q a s rm w)) = cls_discover_sent w"
proof -
  obtain fres r' where f: "set_enforcement_filters env (heap w (retriever self)) a s = (fres, r')"
    by (meson surj_pair)
  show "filter is_telemetry (trace (snd (aget_docs env self q a s rm w))) = filter is_telemetry (trace w)"
    by (cases fres) (simp_all add: aget_docs_steps(3) [OF f])
  show "posted_prompts (trace (snd (aget_docs env self q a s rm w))) = posted_prompts (trace w)"
    by (cases fres) (simp_all add: aget_docs_steps(3) [OF f] posted_prompts_append)
  show "cls_prompt_sent (snd (aget_docs env self q a s rm w)) = cls_prompt_sent w"
    by (rule aget_docs_steps(4) [OF f])
  show "cls_discover_sent (snd (aget_docs env self q a s rm w)) = cls_discover_sent w"
    by (rule aget_docs_steps(5) [OF f])
qed

lemma acall_unfold:
  "acall env self inputs orm w =
     (case getitem inputs (input_key self) of
        Inl e \<Rightarrow> (Inl e, w)
      | Inr q \<Rightarrow>
          (let g = aget_docs env self q (dict_get inputs (auth_context_key self) PyNone)
                     (dict_get inputs (semantic_context_key self) PyNone) (or_noop orm) w;
               w2 = (\<lambda>docs. emit (CombineDocuments (combine_documents_chain self) docs q
                                   (get_child (or_noop orm))) (snd g))
           in case fst g of
                Inl e \<Rightarrow> (Inl e, snd g)
              | Inr docs \<Rightarrow>
                  (case combine_arun env (combine_documents_chain self) docs q
                          (get_child (or_noop orm)) of
                     Inl e \<Rightarrow> (Inl e, w2 docs)
                   | Inr answer \<Rightarrow> (Inr (result_dict self answer docs), w2 docs))))"
  by (simp add: acall_def Let_def split: sum.splits prod.splits)

lemma acall_quiet:
  "filter is_telemetry (trace (snd (acall env self inputs orm w))) = filter is_telemetry (trace w)"
  "posted_prompts (trace (snd (acall env self inputs orm w))) = posted_prompts (trace w)"
  "cls_prompt_sent (snd (acall env self inputs orm w)) = cls_prompt_sent w"
  "cls_discover_sent (snd (acall env self inputs orm w)) = cls_discover_sent w"
  by (simp_all add: acall_unfold Let_def emit_def aget_docs_quiet posted_prompts_append
      split: sum.splits)

lemma acall_keys:
  assumes "fst (acall env self inputs orm w) = Inr out"
  shows "dom out = set (output_keys self)"
proof -
  from assms obtain answer docs where "out = result_dict self answer docs"
    by (auto simp: acall_unfold Let_def split: sum.splits)
  then show ?thesis by (simp add: result_dict_keys)
qed

text \<open>
  C10.  \<open>_acall\<close> emits no telemetry event (no HTTP post, no log record), posts no
  prompt payload and leaves the prompt flag as it was, whereas a successful \<open>_call\<close>
  has posted a prompt payload; the dictionaries the two return have the same keys, the
  output keys of the chain.
\<close>

theorem acall_sends_no_prompt:
  fixes w :: "'f world"
  shows "filter is_telemetry (trace (snd (acall env self inputs orm w)))
           = filter is_telemetry (trace w)
       \<and> posted_prompts (trace (snd (acall env self inputs orm w))) = posted_prompts (trace w)
       \<and> cls_prompt_sent (snd (acall env self inputs orm w)) = cls_prompt_sent w
       \<and> (\<forall>out. fst (acall env self inputs orm w) = Inr out \<longrightarrow>
            dom out = set (output_keys self))
       \<and> (\<forall>out w'. call env self inputs orm w = (Inr out, w') \<longrightarrow>
            dom out = set (output_keys self)
            \<and> posted_prompts (trace w') \<noteq> posted_prompts (trace w))"
proof (intro conjI allI impI)
  fix out and w' :: "'f world"
  assume c: "call env self inputs orm w = (Inr out, w')"
  from call_success [OF c] obtain answer docs qa
    where o: "out = result_dict self answer docs"
      and p: "posted_prompts (trace w')
               \<in> {posted_prompts (trace w) @ [qa], posted_prompts (trace w) @ [qa, qa]}"
    by blast
  show "dom out = set (output_keys self)" using o by (simp add: result_dict_keys)
  show "posted_prompts (trace w') \<noteq> posted_prompts (trace w)" using p by auto
qed (simp_all add: acall_quiet acall_keys)

theorem acall_sends_no_prompt_witness:
  "fst (acall ex_env ex_chain ex_inputs None (ex_world ex_Pinecone))
     = Inr (result_dict ex_chain ''answer'' ex_docs)
   \<and> fst (call ex_env ex_chain ex_inputs None (ex_world ex_Pinecone))
     = Inr (result_dict ex_chain ''answer'' ex_docs)
   \<and> dom (result_dict ex_chain ''answer'' ex_docs) = set (output_keys ex_chain)
   \<and> posted_prompts (trace (snd (acall ex_env ex_chain ex_inputs None (ex_world ex_Pinecone))))
       = []
   \<and> posted_prompts (trace (snd (call ex_env ex_chain ex_inputs None (ex_world ex_Pinecone))))
       \<noteq> []"
proof -
  let ?c = "call ex_env ex_chain ex_inputs None (ex_world ex_Pinecone)"
  have c: "?c = (Inr (result_dict ex_chain ''answer'' ex_docs), snd ?c)"
    using ex_call by (metis prod.collapse)
  have t: "posted_prompts (trace (ex_world ex_Pinecone)) = []"
    by (simp add: ex_world_def)
  note th = acall_sends_no_prompt [where env = ex_env and self = ex_chain and inputs = ex_inputs
      and orm = None and w = "ex_world ex_Pinecone"]
  from th ex_acall have "dom (result_dict ex_chain ''answer'' ex_docs) = set (output_keys ex_chain)"
    by blast
  moreover from th t
  have "posted_prompts (trace (snd (acall ex_env ex_chain ex_inputs None (ex_world ex_Pinecone))))
       = []" by simp
  moreover from th c t have "posted_prompts (trace (snd ?c)) \<noteq> []" by metis
  ultimately show ?thesis using ex_call ex_acall by simp
qed

section \<open>Properties of the enforcement-filter compiler\<close>

lemma matches_conjuncts: "matches t md \<longleftrightarrow> (\<forall>c \<in> set (conjuncts t). matches c md)"
  by (induction t) auto

lemma conjuncts_nonempty: "conjuncts t \<noteq> []"
  by (induction t) auto

lemma conj_clauses_conjuncts:
  "conj_clauses cap x y = Inr z \<Longrightarrow> clause_conjuncts z = clause_conjuncts x @ clause_conjuncts y"
  by (cases "(cap, x, y)" rule: conj_clauses.cases)
     (auto simp: clause_conjuncts_def split: if_splits)

lemma dimension_clause_denied:
  assumes "dimension_clause cap f denied allowed = Inr c" and "denied \<noteq> []"
  shows "\<exists>n. field_name cap f = Some n \<and> FNot (FIn n denied) \<in> set (clause_conjuncts c)"
proof -
  from assms obtain n where n: "field_name cap f = Some n"
    by (auto simp: dimension_clause_def native_field_def split: option.splits)
  from assms n have "conj_clauses cap (Some (FNot (FIn n denied)))
      (if allowed \<noteq> [] then Some (FIn n allowed) else None) = Inr c"
    by (auto simp: dimension_clause_def native_field_def split: if_splits)
  from conj_clauses_conjuncts [OF this]
  have "FNot (FIn n denied) \<in> set (clause_conjuncts c)"
    by (simp add: clause_conjuncts_def)
  with n show ?thesis by blast
qed

lemma compile_filter_conjuncts:
  assumes "compile_filter opt_in backend cap a (Some s) = Inr f"
    and "\<not> no_semantic (Some s)"
  shows "\<exists>ident topic entity.
           dimension_clause cap Topic (denied_topics s) (allowed_topics s) = Inr topic
           \<and> dimension_clause cap Entity (denied_entities s) (allowed_entities s) = Inr entity
           \<and> conjuncts (cf_tree f) = conjuncts ident @ clause_conjuncts topic @ clause_conjuncts entity"
proof -
  from assms obtain ident where i: "identity_clause cap (auth_or_unknown a) = Inr ident"
    by (cases "identity_clause cap (auth_or_unknown a)") (simp_all add: compile_filter_def)
  from assms i obtain sem where sm: "semantic_clause cap s = Inr sem"
    by (cases "semantic_clause cap s") (simp_all add: compile_filter_def semantic_or_empty_def)
  from sm obtain topic where t: "dimension_clause cap Topic (denied_topics s) (allowed_topics s) = Inr topic"
    by (cases "dimension_clause cap Topic (denied_topics s) (allowed_topics s)")
       (simp_all add: semantic_clause_def)
  from sm t obtain entity
    where e: "dimension_clause cap Entity (denied_entities s) (allowed_entities s) = Inr entity"
    by (cases "dimension_clause cap Entity (denied_entities s) (allowed_entities s)")
       (simp_all add: semantic_clause_def)
  from sm t e have c1: "conj_clauses cap topic entity = Inr sem"
    by (simp add: semantic_clause_def)
  from assms i sm obtain z where z: "conj_clauses cap (Some ident) sem = Inr z"
    by (cases "conj_clauses cap (Some ident) sem")
       (simp_all add: compile_filter_def semantic_or_empty_def)
  from conj_clauses_conjuncts [OF z] conj_clauses_conjuncts [OF c1]
  have zc: "clause_conjuncts z = conjuncts ident @ clause_conjuncts topic @ clause_conjuncts entity"
    by (simp add: clause_conjuncts_def)
  then obtain tr where tr: "z = Some tr"
    by (cases z) (simp_all add: clause_conjuncts_def conjuncts_nonempty)
  from assms i sm z tr have "cf_tree f = tr"
    by (auto simp: compile_filter_def semantic_or_empty_def)
  with zc tr have "conjuncts (cf_tree f) = conjuncts ident @ clause_conjuncts topic @ clause_conjuncts entity"
    by (simp add: clause_conjuncts_def)
  with t e show ?thesis by blast
qed

lemma not_in_excludes:
  assumes "FNot (FIn n denied) \<in> set (conjuncts t)" and "l \<in> set denied" and "l \<in> set (md n)"
  shows "\<not> matches t md"
proof
  assume "matches t md"
  with assms(1) have "matches (FNot (FIn n denied)) md" using matches_conjuncts by blast
  with assms(2,3) show False by (auto simp: list_ex_iff)
qed

text \<open>
  C3.  Whenever compilation succeeds and a deny list is not empty, the NOT-IN predicate
  over that deny list is one of the predicates of the compiled filter, whatever the
  allow list holds; so a document that carries a denied label in the field of that
  dimension is not matched, also when the label is in the allow list too.  This holds
  for topics and for entities.
\<close>

theorem denied_label_excluded:
  assumes "compile_filter opt_in backend cap a (Some s) = Inr f"
  shows "(denied_topics s \<noteq> [] \<longrightarrow>
            (\<exists>n. field_name cap Topic = Some n
               \<and> FNot (FIn n (denied_topics s)) \<in> set (conjuncts (cf_tree f))
               \<and> (\<forall>l md. l \<in> set (denied_topics s) \<and> l \<in> set (md n) \<longrightarrow>
                     \<not> matches (cf_tree f) md)))
       \<and> (denied_entities s \<noteq> [] \<longrightarrow>
            (\<exists>n. field_name cap Entity = Some n
               \<and> FNot (FIn n (denied_entities s)) \<in> set (conjuncts (cf_tree f))
               \<and> (\<forall>l md. l \<in> set (denied_entities s) \<and> l \<in> set (md n) \<longrightarrow>
                     \<not> matches (cf_tree f) md)))"
proof (intro conjI impI)
  assume d: "denied_topics s \<noteq> []"
  then have "\<not> no_semantic (Some s)" by (simp add: no_semantic_def semantic_or_empty_def)
  from compile_filter_conjuncts [OF assms this] obtain ident topic entity
    where t: "dimension_clause cap Topic (denied_topics s) (allowed_topics s) = Inr topic"
      and c: "conjuncts (cf_tree f) = conjuncts ident @ clause_conjuncts topic @ clause_conjuncts entity"
    by blast
  from dimension_clause_denied [OF t d] obtain n
    where n: "field_name cap Topic = Some n"
      "FNot (FIn n (denied_topics s)) \<in> set (clause_conjuncts topic)" by blast
  with c have m: "FNot (FIn n (denied_topics s)) \<in> set (conjuncts (cf_tree f))" by simp
  with n(1) show "\<exists>n. field_name cap Topic = Some n
               \<and> FNot (FIn n (denied_topics s)) \<in> set (conjuncts (cf_tree f))
               \<and> (\<forall>l md. l \<in> set (denied_topics s) \<and> l \<in> set (md n) \<longrightarrow>
                     \<not> matches (cf_tree f) md)"
    using not_in_excludes [OF m] by blast
next
  assume d: "denied_entities s \<noteq> []"
  then have "\<not> no_semantic (Some s)" by (simp add: no_semantic_def semantic_or_empty_def)
  from compile_filter_conjuncts [OF assms this] obtain ident topic entity
    where t: "dimension_clause cap Entity (denied_entities s) (allowed_entities s) = Inr entity"
      and c: "conjuncts (cf_tree f) = conjuncts ident @ clause_conjuncts topic @ clause_conjuncts entity"
    by blast
  from dimension_clause_denied [OF t d] obtain n
    where n: "field_name cap Entity = Some n"
      "FNot (FIn n (denied_entities s)) \<in> set (clause_conjuncts entity)" by blast
  with c have m: "FNot (FIn n (denied_entities s)) \<in> set (conjuncts (cf_tree f))" by simp
  with n(1) show "\<exists>n. field_name cap Entity = Some n
               \<and> FNot (FIn n (denied_entities s)) \<in> set (conjuncts (cf_tree f))
               \<and> (\<forall>l md. l \<in> set (denied_entities s) \<and> l \<in> set (md n) \<longrightarrow>
                     \<not> matches (cf_tree f) md)"
    using not_in_excludes [OF m] by blast
qed


lemmas ex_spec_defs = ex_cap_def ex_cap_no_not_def ex_fields_def ex_alice_def ex_deny_finance_def
  ex_registry_def ex_metadata_def ex_handle_def

lemmas compiler_defs = compile_filter_def identity_clause_def semantic_clause_def
  dimension_clause_def native_field_def auth_or_unknown_def semantic_or_empty_def
  no_semantic_def empty_semantic_def

lemma ex_compile:
  "compile_filter False ''X'' ex_cap (Some ex_alice) (Some ex_deny_finance)
     = Inr \<lparr>cf_backend = ''X'', cf_tree = ex_tree\<rparr>"
  by (simp add: compiler_defs ex_spec_defs ex_tree_def)

lemma ex_compile_absent:
  "compile_filter True ''X'' ex_cap None None = Inr \<lparr>cf_backend = ''X'', cf_tree = Unrestricted\<rparr>"
  "compile_filter False ''X'' ex_cap None None
     = Inr \<lparr>cf_backend = ''X'', cf_tree = FEq ''principal'' ''unknown''\<rparr>"
  by (simp_all add: compiler_defs ex_spec_defs)

lemma ex_compile_no_not:
  "compile_filter False ''Y'' ex_cap_no_not (Some ex_alice) (Some ex_deny_finance)
     = Inl UnsupportedFilterOperatorError"
  by (simp add: compiler_defs ex_spec_defs)

theorem denied_label_excluded_witness:
  "compile_filter False ''X'' ex_cap (Some ex_alice) (Some ex_deny_finance)
     = Inr \<lparr>cf_backend = ''X'', cf_tree = ex_tree\<rparr>
   \<and> ''finance'' \<in> set (denied_topics ex_deny_finance)
   \<and> ''finance'' \<in> set (allowed_topics ex_deny_finance)
   \<and> ''finance'' \<in> set (ex_metadata ''topic'')
   \<and> FNot (FIn ''topic'' [''finance'']) \<in> set (conjuncts ex_tree)
   \<and> ''ssn'' \<in> set (denied_entities ex_deny_finance)
   \<and> FNot (FIn ''entity'' [''ssn'']) \<in> set (conjuncts ex_tree)
   \<and> \<not> matches ex_tree ex_metadata
   \<and> \<not> matches ex_tree (ex_metadata(''topic'' := []))"
proof -
  note th = denied_label_excluded [OF ex_compile]
  have d: "denied_topics ex_deny_finance \<noteq> []" "denied_entities ex_deny_finance \<noteq> []"
    by (simp_all add: ex_deny_finance_def)
  have l: "''finance'' \<in> set (denied_topics ex_deny_finance)"
    "''finance'' \<in> set (allowed_topics ex_deny_finance)"
    "''finance'' \<in> set (ex_metadata ''topic'')"
    "''ssn'' \<in> set (denied_entities ex_deny_finance)"
    "''ssn'' \<in> set ((ex_metadata(''topic'' := [])) ''entity'')"
    by (simp_all add: ex_deny_finance_def ex_metadata_def)
  from th [THEN conjunct1, rule_format, OF d(1)] obtain n
    where n: "field_name ex_cap Topic = Some n"
      and c: "FNot (FIn n (denied_topics ex_deny_finance)) \<in> set (conjuncts ex_tree)"
      and x: "\<forall>l md. l \<in> set (denied_topics ex_deny_finance) \<and> l \<in> set (md n) \<longrightarrow>
                \<not> matches ex_tree md"
    by auto
  from n have n': "n = ''topic''" by (simp add: ex_cap_def ex_fields_def)
  from x l(1,3) have 1: "\<not> matches ex_tree ex_metadata" unfolding n' by blast
  from c have 2: "FNot (FIn ''topic'' [''finance'']) \<in> set (conjuncts ex_tree)"
    unfolding n' by (simp add: ex_deny_finance_def)
  from th [THEN conjunct2, rule_format, OF d(2)] obtain m
    where m: "field_name ex_cap Entity = Some m"
      and c': "FNot (FIn m (denied_entities ex_deny_finance)) \<in> set (conjuncts ex_tree)"
      and y: "\<forall>l md. l \<in> set (denied_entities ex_deny_finance) \<and> l \<in> set (md m) \<longrightarrow>
                \<not> matches ex_tree md"
    by auto
  from m have m': "m = ''entity''" by (simp add: ex_cap_def ex_fields_def)
  from y l(4,5) have 3: "\<not> matches ex_tree (ex_metadata(''topic'' := []))"
    unfolding m' by blast
  from c' have 4: "FNot (FIn ''entity'' [''ssn'']) \<in> set (conjuncts ex_tree)"
    unfolding m' by (simp add: ex_deny_finance_def)
  from ex_compile l 1 2 3 4 show ?thesis by simp
qed

text \<open>
  C5.  The compiled identity clause matches a document if and only if the principal
  field of the document equals \<open>user_id\<close> or the group field shares an entry with
  \<open>user_auth\<close>; with an empty \<open>user_auth\<close> it matches exactly when the principal
  field equals \<open>user_id\<close>.
\<close>

theorem identity_clause_matches:
  assumes "identity_clause cap a = Inr t"
  shows "\<exists>p. field_name cap Principal = Some p
           \<and> (matches t md \<longleftrightarrow>
                md p = [user_id a]
                \<or> (\<exists>g. field_name cap Group = Some g \<and> set (user_auth a) \<inter> set (md g) \<noteq> {}))
           \<and> (user_auth a = [] \<longrightarrow> (matches t md \<longleftrightarrow> md p = [user_id a]))
           \<and> (user_auth a \<noteq> [] \<longrightarrow> field_name cap Group \<noteq> None)"
proof -
  from assms obtain p where p: "field_name cap Principal = Some p"
    by (auto simp: identity_clause_def native_field_def split: option.splits)
  show ?thesis
  proof (cases "user_auth a = []")
    case True
    with assms p have "t = FEq p (user_id a)"
      by (simp add: identity_clause_def native_field_def)
    with p True show ?thesis by simp
  next
    case False
    with assms p obtain g where g: "field_name cap Group = Some g"
      by (auto simp: identity_clause_def native_field_def split: option.splits)
    with assms p False have "t = FOr (FEq p (user_id a)) (FIn g (user_auth a))"
      by (auto simp: identity_clause_def native_field_def split: if_splits)
    with p g False show ?thesis by (auto simp: list_ex_iff)
  qed
qed

theorem identity_clause_matches_witness:
  "identity_clause ex_cap ex_alice
     = Inr (FOr (FEq ''principal'' ''alice'') (FIn ''group'' [''team-a'']))
   \<and> matches (FOr (FEq ''principal'' ''alice'') (FIn ''group'' [''team-a''])) ex_metadata
   \<and> identity_clause ex_cap (ex_alice\<lparr>user_auth := []\<rparr>) = Inr (FEq ''principal'' ''alice'')
   \<and> \<not> matches (FEq ''principal'' ''alice'') ex_metadata"
proof -
  have c: "identity_clause ex_cap ex_alice
     = Inr (FOr (FEq ''principal'' ''alice'') (FIn ''group'' [''team-a'']))"
    by (simp add: compiler_defs ex_spec_defs)
  have c0: "identity_clause ex_cap (ex_alice\<lparr>user_auth := []\<rparr>) = Inr (FEq ''principal'' ''alice'')"
    by (simp add: compiler_defs ex_spec_defs)
  have f: "field_name ex_cap Principal = Some ''principal''" "field_name ex_cap Group = Some ''group''"
    by (simp_all add: ex_cap_def ex_fields_def)
  have m: "set (user_auth ex_alice) \<inter> set (ex_metadata ''group'') \<noteq> {}"
    "ex_metadata ''principal'' \<noteq> [user_id ex_alice]"
    by (simp_all add: ex_alice_def ex_metadata_def)
  from identity_clause_matches [OF c, of ex_metadata] f m
  have 1: "matches (FOr (FEq ''principal'' ''alice'') (FIn ''group'' [''team-a''])) ex_metadata"
    by auto
  from identity_clause_matches [OF c0, of ex_metadata] f m
  have 2: "\<not> matches (FEq ''principal'' ''alice'') ex_metadata"
    by (auto simp: ex_alice_def)
  from c c0 1 2 show ?thesis by simp
qed

section \<open>Determinism and idempotence of enforcement\<close>



lemma set_label_set: "set (label_set xs) = set xs"
  by (simp add: label_set_def)














section \<open>Unsupported vector stores\<close>

lemma send_discover_case:
  assumes "raises_exceptions_only env"
  shows "(case send_discover env app key url w of
            (Inl e, w1) \<Rightarrow> f e w1
          | (Inr u, w1) \<Rightarrow> g u w1) = g () (snd (send_discover env app key url w))"
proof -
  obtain r w1 where s: "send_discover env app key url w = (r, w1)" by (meson surj_pair)
  with send_discover_never_raises [OF assms, of app key url w] have "r = Inr ()" by simp
  with s show ?thesis by simp
qed

lemma from_chain_type_value_error:
  assumes "kw_retriever kwargs = Some r"
    and "\<not> list_ex (isinstance (vectorstore (heap w r))) (SUPPORTED_VECTORSTORES env)"
    and "raises_exceptions_only env"
    and "load_qa_chain env l ct (or_default ctk []) = Inr cdc"
    and "get_app_details env name own descr l kwargs w = Inr app"
  shows "fst (from_chain_type env l name descr own ct ctk key url kwargs w)
           = Inl (ValidationError
                   [(''retriever'',
                     ValueError (unsupported_message (SUPPORTED_VECTORSTORES env)
                                   (vectorstore (heap w r))))])"
proof -
  let ?sd = "send_discover env app key url w"
  have sd: "?sd = (Inr (), snd ?sd)"
    using send_discover_never_raises [OF assms(3), of app key url w] by (metis prod.collapse)
  have h: "heap (snd ?sd) = heap w" using send_discover_heap [OF sd] .
  let ?vals = "\<lparr>combine_documents_chain = cdc,
                            input_key = or_default (kw_input_key kwargs) ''query'',
                            output_key = or_default (kw_output_key kwargs) ''result'',
                            return_source_documents =
                              or_default (kw_return_source_documents kwargs) False,
                            retriever = r,
                            auth_context_key =
                              or_default (kw_auth_context_key kwargs) ''auth_context'',
                            semantic_context_key =
                              or_default (kw_semantic_context_key kwargs) ''semantic_context'',
                            app_name = name, owner = own, description = descr,
                            api_key = key, classifier_url = url\<rparr>"
  have "\<not> list_ex (isinstance (vectorstore (heap (snd ?sd) (retriever ?vals))))
          (SUPPORTED_VECTORSTORES env)"
    using assms(2) h by simp
  from init_unsupported [OF this]
  have i: "PebbloRetrievalQA env ?vals (snd ?sd)
             = (Inl (ValidationError
                      [(''retriever'',
                        ValueError (unsupported_message (SUPPORTED_VECTORSTORES env)
                                      (vectorstore (heap w r))))]), snd ?sd)"
    using h by simp
  have "from_chain_type env l name descr own ct ctk key url kwargs w
          = PebbloRetrievalQA env ?vals (snd ?sd)"
    unfolding from_chain_type_def assms(4) assms(5) send_discover_case [OF assms(3)]
    by (simp add: assms(1))
  with i show ?thesis by simp
qed

text \<open>
  C1.  When the vector store of the retriever is not an instance of any class in
  \<open>SUPPORTED_VECTORSTORES\<close>, constructing the chain fails with the unsupported-store
  error: the validator raises its \<open>ValueError\<close> (the message names the supported
  classes and the class that was given), and the constructor raises the
  \<open>ValidationError\<close> that holds this error for the field \<open>retriever\<close>, and
  changes nothing.  \<open>from_chain_type\<close> never returns a chain, leaves every retriever
  as it was and emits telemetry events only (the enforcement filters are never called
  and no search runs), and what it raises is that same \<open>ValidationError\<close> whenever
  the steps before the constructor succeed.  With no chain there is nothing through
  which enforcement could be applied.
\<close>

theorem unsupported_vectorstore_rejected:
  assumes "\<not> list_ex (isinstance (vectorstore (heap w r))) (SUPPORTED_VECTORSTORES env)"
  shows "validate_vectorstore (SUPPORTED_VECTORSTORES env) (heap w r)
           = Inl (ValueError (unsupported_message (SUPPORTED_VECTORSTORES env)
                               (vectorstore (heap w r))))
       \<and> (\<forall>vals. retriever vals = r \<longrightarrow>
            PebbloRetrievalQA env vals w =
              (Inl (ValidationError
                     [(''retriever'',
                       ValueError (unsupported_message (SUPPORTED_VECTORSTORES env)
                                     (vectorstore (heap w r))))]), w))
       \<and> (\<forall>l name descr own ct ctk key url kwargs. kw_retriever kwargs = Some r \<longrightarrow>
            (\<exists>e w' evs.
               from_chain_type env l name descr own ct ctk key url kwargs w = (Inl e, w')
               \<and> heap w' = heap w \<and> trace w' = trace w @ evs \<and> list_all is_telemetry evs))
       \<and> (\<forall>l name descr own ct ctk key url kwargs cdc app.
            kw_retriever kwargs = Some r \<and> raises_exceptions_only env
            \<and> load_qa_chain env l ct (or_default ctk []) = Inr cdc
            \<and> get_app_details env name own descr l kwargs w = Inr app \<longrightarrow>
            fst (from_chain_type env l name descr own ct ctk key url kwargs w)
              = Inl (ValidationError
                      [(''retriever'',
                        ValueError (unsupported_message (SUPPORTED_VECTORSTORES env)
                                      (vectorstore (heap w r))))]))"
proof (intro conjI allI impI)
  show "validate_vectorstore (SUPPORTED_VECTORSTORES env) (heap w r)
           = Inl (ValueError (unsupported_message (SUPPORTED_VECTORSTORES env)
                               (vectorstore (heap w r))))"
    by (rule validate_unsupported [OF assms])
next
  fix vals :: chain
  assume "retriever vals = r"
  with assms show "PebbloRetrievalQA env vals w =
              (Inl (ValidationError
                     [(''retriever'',
                       ValueError (unsupported_message (SUPPORTED_VECTORSTORES env)
                                     (vectorstore (heap w r))))]), w)"
    using init_unsupported [of w vals env] by simp
next
  fix l name descr own ct ctk key url and kwargs :: chain_kwargs
  assume "kw_retriever kwargs = Some r"
  from from_chain_type_unsupported [OF this assms]
  show "\<exists>e w' evs.
          from_chain_type env l name descr own ct ctk key url kwargs w = (Inl e, w')
          \<and> heap w' = heap w \<and> trace w' = trace w @ evs \<and> list_all is_telemetry evs" .
next
  fix l name descr own ct ctk key url cdc app and kwargs :: chain_kwargs
  assume h: "kw_retriever kwargs = Some r \<and> raises_exceptions_only env
            \<and> load_qa_chain env l ct (or_default ctk []) = Inr cdc
            \<and> get_app_details env name own descr l kwargs w = Inr app"
  show "fst (from_chain_type env l name descr own ct ctk key url kwargs w)
              = Inl (ValidationError
                      [(''retriever'',
                        ValueError (unsupported_message (SUPPORTED_VECTORSTORES env)
                                      (vectorstore (heap w r))))])"
    by (rule from_chain_type_value_error [where cdc = cdc and app = app and r = r])
       (simp_all add: h assms)
qed

theorem unsupported_vectorstore_rejected_witness:
  "\<not> list_ex (isinstance (vectorstore (heap (ex_world ex_Chroma) 0)))
       (SUPPORTED_VECTORSTORES ex_env)
   \<and> unsupported_message (SUPPORTED_VECTORSTORES ex_env)
       (vectorstore (heap (ex_world ex_Chroma) 0))
       = ''Vectorstore must be an instance of one of the supported vectorstores: ''
           @ ''[<class '' @ [CHR 0x27] @ ''langchain_community.vectorstores.pinecone.Pinecone''
           @ [CHR 0x27] @ ''>]. Got Chroma instead.''
   \<and> PebbloRetrievalQA ex_env ex_chain (ex_world ex_Chroma)
       = (Inl (ValidationError
                [(''retriever'',
                  ValueError (unsupported_message (SUPPORTED_VECTORSTORES ex_env)
                                (vectorstore (heap (ex_world ex_Chroma) 0))))]),
          ex_world ex_Chroma)
   \<and> fst (from_chain_type ex_env ex_llm ''app'' ''demo'' ''me'' ''stuff'' None None
            ''http://localhost:8000'' ex_kwargs (ex_world ex_Chroma))
       = Inl (ValidationError
               [(''retriever'',
                 ValueError (unsupported_message (SUPPORTED_VECTORSTORES ex_env)
                               (vectorstore (heap (ex_world ex_Chroma) 0))))])
   \<and> heap (snd (from_chain_type ex_env ex_llm ''app'' ''demo'' ''me'' ''stuff'' None None
                ''http://localhost:8000'' ex_kwargs (ex_world ex_Chroma)))
       = heap (ex_world ex_Chroma)"
proof -
  let ?fc = "from_chain_type ex_env ex_llm ''app'' ''demo'' ''me'' ''stuff'' None None
                ''http://localhost:8000'' ex_kwargs (ex_world ex_Chroma)"
  have h: "\<not> list_ex (isinstance (vectorstore (heap (ex_world ex_Chroma) 0)))
             (SUPPORTED_VECTORSTORES ex_env)"
    by (simp add: ex_world_def ex_env_def ex_store_def isinstance_def ex_Chroma_def
        ex_Pinecone_def)
  have m: "unsupported_message (SUPPORTED_VECTORSTORES ex_env)
       (vectorstore (heap (ex_world ex_Chroma) 0))
       = ''Vectorstore must be an instance of one of the supported vectorstores: ''
           @ ''[<class '' @ [CHR 0x27] @ ''langchain_community.vectorstores.pinecone.Pinecone''
           @ [CHR 0x27] @ ''>]. Got Chroma instead.''"
    by (simp add: unsupported_message_def repr_class_list_def repr_class_def type_name_def
        ex_world_def ex_env_def ex_store_def ex_Chroma_def ex_Pinecone_def)
  have r: "retriever ex_chain = 0" by (simp add: ex_chain_def)
  have k: "kw_retriever ex_kwargs = Some 0" by (simp add: ex_kwargs_def)
  have n: "raises_exceptions_only ex_env"
    by (simp add: raises_exceptions_only_def ex_env_def)
  have q: "load_qa_chain ex_env ex_llm ''stuff'' (or_default None []) = Inr 0"
    by (simp add: ex_env_def)
  have "\<exists>app. get_app_details ex_env ''app'' ''me'' ''demo'' ex_llm ex_kwargs
      (ex_world ex_Chroma) = Inr app"
    by (simp add: get_app_details_def get_chain_details_def embedding_model_def ex_env_def
        ex_kwargs_def ex_world_def ex_store_def)
  then obtain app where a: "get_app_details ex_env ''app'' ''me'' ''demo'' ex_llm ex_kwargs
      (ex_world ex_Chroma) = Inr app" ..
  note th = unsupported_vectorstore_rejected [OF h]
  have 1: "PebbloRetrievalQA ex_env ex_chain (ex_world ex_Chroma)
       = (Inl (ValidationError
                [(''retriever'',
                  ValueError (unsupported_message (SUPPORTED_VECTORSTORES ex_env)
                                (vectorstore (heap (ex_world ex_Chroma) 0))))]),
          ex_world ex_Chroma)"
    by (rule th [THEN conjunct2, THEN conjunct1, rule_format, OF r])
  have "\<exists>e w' evs. ?fc = (Inl e, w') \<and> heap w' = heap (ex_world ex_Chroma)
      \<and> trace w' = trace (ex_world ex_Chroma) @ evs \<and> list_all is_telemetry evs"
    by (rule th [THEN conjunct2, THEN conjunct2, THEN conjunct1, rule_format, OF k])
  then have 2: "heap (snd ?fc) = heap (ex_world ex_Chroma)" by auto
  have 3: "fst ?fc = Inl (ValidationError
               [(''retriever'',
                 ValueError (unsupported_message (SUPPORTED_VECTORSTORES ex_env)
                               (vectorstore (heap (ex_world ex_Chroma) 0))))])"
    by (rule th [THEN conjunct2, THEN conjunct2, THEN conjunct2, rule_format,
          where cdc = 0 and app = app])
       (simp add: k n q a)
  from h m 1 2 3 show ?thesis by simp
qed

end
